theory Spec2Isabelle
  imports Complex_Main "HOL-Library.Char_ord" "HOL-Library.List_Lexorder" "HOL-Library.Product_Lexorder"
    "HOL-Library.Multiset" "HOL-Library.AList"
begin

section \<open>JavaScript values\<close>

text \<open>
  Objects and arrays live in a heap and are referred to by address, so that identity
  (\<open>===\<close>, \<open>Array.prototype.includes\<close>, \<open>Map\<close> keys) differs from structural equality and
  a definition may be cyclic. A number is a rational or \<open>NaN\<close> (the infinities are left out).
  An object is the list of its own enumerable properties in \<open>Object.keys\<close> order.
\<close>

type_synonym addr = nat

datatype jsnum = NaN | Fin rat

datatype jsval = Undefined | Null | JBool bool | JNum jsnum | JStr string | JFun nat | Ref addr

datatype obj = OArr "jsval list" | OObj "(string \<times> jsval) list"

type_synonym heap = "addr \<Rightarrow> obj option"

text \<open>A thrown value: either \<open>null\<close>/\<open>undefined\<close>, or a value whose \<open>stack\<close> property reads
  as the given text (an \<open>Error\<close> object; for other values the text is \<open>undefined\<close>).\<close>

datatype thrown = Thrown string | ThrownNullish

definition type_error :: thrown where
  "type_error = Thrown ''TypeError''"

type_synonym path = "string list"

type_synonym msg = "path \<times> string"

definition dq :: string where
  "dq = [char_of (34::nat)]"

fun truthy :: "jsval \<Rightarrow> bool" where
  "truthy Undefined = False"
| "truthy Null = False"
| "truthy (JBool b) = b"
| "truthy (JNum NaN) = False"
| "truthy (JNum (Fin q)) = (q \<noteq> 0)"
| "truthy (JStr s) = (s \<noteq> [])"
| "truthy (JFun f) = True"
| "truthy (Ref a) = True"

fun num_lt :: "jsnum \<Rightarrow> jsnum \<Rightarrow> bool" where
  "num_lt (Fin a) (Fin b) = (a < b)"
| "num_lt _ _ = False"

fun num_eq :: "jsnum \<Rightarrow> jsnum \<Rightarrow> bool" where
  "num_eq (Fin a) (Fin b) = (a = b)"
| "num_eq _ _ = False"

text \<open>Unary plus. The conversion of strings, functions and objects is a parameter \<open>cv\<close>.\<close>

fun to_number :: "(jsval \<Rightarrow> jsnum) \<Rightarrow> jsval \<Rightarrow> jsnum" where
  "to_number cv Undefined = NaN"
| "to_number cv Null = Fin 0"
| "to_number cv (JBool b) = Fin (if b then 1 else 0)"
| "to_number cv (JNum n) = n"
| "to_number cv v = cv v"

text \<open>Decimal rendering of an array index, as used for property keys and paths.\<close>

fun dec :: "nat \<Rightarrow> string" where
  "dec n = (if n < 10 then [''0123456789'' ! n] else dec (n div 10) @ [''0123456789'' ! (n mod 10)])"

declare dec.simps [simp del]

fun join :: "string \<Rightarrow> string list \<Rightarrow> string" where
  "join sep [] = []"
| "join sep [x] = x"
| "join sep (x # y # ys) = x @ sep @ join sep (y # ys)"

text \<open>Own properties only (plus \<open>length\<close> of arrays and strings); \<open>None\<close> is the
  \<open>TypeError\<close> of reading a property of \<open>undefined\<close> or \<open>null\<close>.\<close>

definition arr_prop :: "jsval list \<Rightarrow> string \<Rightarrow> jsval" where
  "arr_prop xs k =
     (if k = ''length'' then JNum (Fin (of_nat (length xs)))
      else case find (\<lambda>i. dec i = k) [0..<length xs] of Some i \<Rightarrow> xs ! i | None \<Rightarrow> Undefined)"

definition get_prop :: "heap \<Rightarrow> jsval \<Rightarrow> string \<Rightarrow> jsval option" where
  "get_prop h v k =
     (case v of
        Undefined \<Rightarrow> None
      | Null \<Rightarrow> None
      | Ref a \<Rightarrow>
          (case h a of
             Some (OObj kvs) \<Rightarrow> Some (case map_of kvs k of Some x \<Rightarrow> x | None \<Rightarrow> Undefined)
           | Some (OArr xs) \<Rightarrow> Some (arr_prop xs k)
           | None \<Rightarrow> Some Undefined)
      | JStr s \<Rightarrow> Some (if k = ''length'' then JNum (Fin (of_nat (length s))) else Undefined)
      | _ \<Rightarrow> Some Undefined)"

definition has_own :: "heap \<Rightarrow> jsval \<Rightarrow> string \<Rightarrow> bool" where
  "has_own h v k =
     (case v of
        Ref a \<Rightarrow>
          (case h a of
             Some (OObj kvs) \<Rightarrow> k \<in> set (map fst kvs)
           | Some (OArr xs) \<Rightarrow> k = ''length'' \<or> k \<in> set (map dec [0..<length xs])
           | None \<Rightarrow> False)
      | JStr s \<Rightarrow> k = ''length'' \<or> k \<in> set (map dec [0..<length s])
      | _ \<Rightarrow> False)"

definition obj_keys :: "heap \<Rightarrow> jsval \<Rightarrow> string list option" where
  "obj_keys h v =
     (case v of
        Undefined \<Rightarrow> None
      | Null \<Rightarrow> None
      | Ref a \<Rightarrow>
          (case h a of
             Some (OObj kvs) \<Rightarrow> Some (map fst kvs)
           | Some (OArr xs) \<Rightarrow> Some (map dec [0..<length xs])
           | None \<Rightarrow> Some [])
      | JStr s \<Rightarrow> Some (map dec [0..<length s])
      | _ \<Rightarrow> Some [])"

section \<open>Schema meta-validator: the cross-field \<open>errors\<close> callback\<close>

definition minMaxValid :: "(jsval \<Rightarrow> jsnum) \<Rightarrow> jsval \<Rightarrow> jsval \<Rightarrow> jsval \<Rightarrow> jsval \<Rightarrow> bool" where
  "minMaxValid cv minimum maximum exclusiveMinimum exclusiveMaximum =
     (if minimum = Undefined \<or> maximum = Undefined then True
      else (let mn = to_number cv minimum; mx = to_number cv maximum
            in num_lt mn mx \<or> (\<not> truthy exclusiveMinimum \<and> \<not> truthy exclusiveMaximum \<and> num_eq mn mx)))"

definition min_max_message :: "string \<Rightarrow> string \<Rightarrow> string" where
  "min_max_message lo hi =
     ''Property '' @ dq @ lo @ dq @ '' must be less than or equal to '' @ dq @ hi @ dq"

definition minimum_message :: "bool \<Rightarrow> string" where
  "minimum_message exclusive =
     ''Property '' @ dq @ ''minimum'' @ dq @ '' must be less than ''
       @ (if exclusive then [] else ''or equal to '') @ dq @ ''maximum'' @ dq"

definition composites_message :: "string list \<Rightarrow> string" where
  "composites_message composites = ''Cannot have multiple composites: '' @ join '', '' composites"

text \<open>The loop over \<open>Object.keys(result.properties)\<close>: each property schema \<open>v\<close> is read for
  \<open>v.readOnly && v.writeOnly\<close>; reading them off \<open>undefined\<close> or \<open>null\<close> throws and ends the
  callback.\<close>

fun properties_loop :: "heap \<Rightarrow> path \<Rightarrow> jsval \<Rightarrow> string list \<Rightarrow> msg list \<times> thrown option" where
  "properties_loop h p props [] = ([], None)"
| "properties_loop h p props (key # keys) =
     (let v = (case get_prop h props key of Some x \<Rightarrow> x | None \<Rightarrow> Undefined)
      in case get_prop h v ''readOnly'' of
           None \<Rightarrow> ([], Some type_error)
         | Some ro \<Rightarrow>
             (let here = (if truthy ro \<and> truthy (case get_prop h v ''writeOnly'' of Some w \<Rightarrow> w | None \<Rightarrow> Undefined)
                          then [(p @ [''properties'', key], ''Cannot be marked as both readOnly and writeOnly'')]
                          else []);
                  rest = properties_loop h p props keys
              in (here @ fst rest, snd rest)))"

definition composites_of :: "heap \<Rightarrow> jsval \<Rightarrow> string list" where
  "composites_of h result = filter (has_own h result) [''allOf'', ''anyOf'', ''oneOf'', ''not'']"

text \<open>The four bound checks and the \<open>required\<close>/\<open>maxProperties\<close> check that open the
  callback; none of them can throw once \<open>result\<close> is an object.\<close>

definition bounds_messages :: "(jsval \<Rightarrow> jsnum) \<Rightarrow> heap \<Rightarrow> path \<Rightarrow> jsval \<Rightarrow> msg list" where
  "bounds_messages cv h p result =
     (let g = (\<lambda>k. case get_prop h result k of Some x \<Rightarrow> x | None \<Rightarrow> Undefined);
          m1 = (if \<not> minMaxValid cv (g ''minItems'') (g ''maxItems'') Undefined Undefined
                then [(p, min_max_message ''minItems'' ''maxItems'')] else []);
          m2 = (if \<not> minMaxValid cv (g ''minLength'') (g ''maxLength'') Undefined Undefined
                then [(p, min_max_message ''minLength'' ''maxLength'')] else []);
          m3 = (if \<not> minMaxValid cv (g ''minProperties'') (g ''maxProperties'') Undefined Undefined
                then [(p, min_max_message ''minProperties'' ''maxProperties'')] else []);
          m4 = (if truthy (g ''required'') \<and> has_own h result ''maxProperties''
                   \<and> num_lt (to_number cv (g ''maxProperties''))
                        (to_number cv (case get_prop h (g ''required'') ''length'' of Some l \<Rightarrow> l | None \<Rightarrow> Undefined))
                then [(p, ''There are more required properties than is allows by '' @ dq @ ''maxProperties'' @ dq @ '' contraint'')]
                else []);
          m5 = (if \<not> minMaxValid cv (g ''minimum'') (g ''maximum'') (g ''exclusiveMinimum'') (g ''exclusiveMaximum'')
                then [(p, minimum_message (truthy (g ''exclusiveMinimum'') \<or> truthy (g ''exclusiveMaximum'')))]
                else [])
      in m1 @ m2 @ m3 @ m4 @ m5)"

definition composites_check :: "heap \<Rightarrow> path \<Rightarrow> jsval \<Rightarrow> msg list" where
  "composites_check h p result =
     (let composites = composites_of h result
      in if length composites > 1 then [(p, composites_message composites)] else [])"

text \<open>\<open>validator.errors\<close> of the Schema descriptor. It returns the messages attached to the
  exception collector (whose path is \<open>p\<close>) and the value thrown, if the callback threw.\<close>

definition schema_errors :: "(jsval \<Rightarrow> jsnum) \<Rightarrow> heap \<Rightarrow> path \<Rightarrow> jsval \<Rightarrow> msg list \<times> thrown option" where
  "schema_errors cv h p result =
     (if result = Undefined \<or> result = Null then ([], Some type_error)
      else
        (let before = bounds_messages cv h p result;
             properties = (case get_prop h result ''properties'' of Some x \<Rightarrow> x | None \<Rightarrow> Undefined)
         in if has_own h result ''properties''
            then (case obj_keys h properties of
                    None \<Rightarrow> (before, Some type_error)
                  | Some keys \<Rightarrow>
                      (case properties_loop h p properties keys of
                         (m6, Some e) \<Rightarrow> (before @ m6, Some e)
                       | (m6, None) \<Rightarrow> (before @ m6 @ composites_check h p result, None)))
            else (before @ composites_check h p result, None)))"

subsection \<open>Sample schema results\<close>

definition heap_equal_bounds :: heap where
  "heap_equal_bounds = [0 \<mapsto> OObj [(''type'', JStr ''number''), (''minimum'', JNum (Fin 3)), (''maximum'', JNum (Fin 3))]]"

definition heap_exclusive_bounds :: heap where
  "heap_exclusive_bounds =
     [0 \<mapsto> OObj [(''type'', JStr ''number''), (''minimum'', JNum (Fin 3)), (''maximum'', JNum (Fin 3)),
                   (''exclusiveMinimum'', JBool True)]]"

definition heap_reversed_bounds :: heap where
  "heap_reversed_bounds = [0 \<mapsto> OObj [(''type'', JStr ''number''), (''minimum'', JNum (Fin 5)), (''maximum'', JNum (Fin 3))]]"

definition heap_two_composites :: heap where
  "heap_two_composites =
     [0 \<mapsto> OObj [(''type'', JStr ''object''), (''properties'', Ref 1), (''allOf'', Ref 2), (''oneOf'', Ref 3)],
      1 \<mapsto> OObj [(''a'', Undefined)],
      2 \<mapsto> OArr [],
      3 \<mapsto> OArr []]"

section \<open>Schema enforcer: \<open>discriminate\<close>\<close>

text \<open>A schema node with the fields \<open>discriminate\<close> reads: \<open>this.discriminator\<close>,
  \<open>this.enforcerData.major\<close> and \<open>this.enforcerData.root.result\<close>.\<close>

record schema_node =
  discriminator :: jsval
  major :: int
  root_result :: jsval

text \<open>The value returned: a plain value, or the object \<open>{key, name, schema}\<close>.\<close>

datatype discriminated = Plain jsval | Details jsval jsval jsval

text \<open>Property keys: a string is its own key, any other value is converted by the
  parameter \<open>tk\<close>.\<close>

definition to_key :: "(jsval \<Rightarrow> string) \<Rightarrow> jsval \<Rightarrow> string" where
  "to_key tk v = (case v of JStr s \<Rightarrow> s | _ \<Rightarrow> tk v)"

text \<open>\<open>a && a[k]\<close>: the falsy \<open>a\<close> itself, or the property.\<close>

definition and_prop :: "heap \<Rightarrow> jsval \<Rightarrow> string \<Rightarrow> jsval" where
  "and_prop h a k = (if truthy a then (case get_prop h a k of Some x \<Rightarrow> x | None \<Rightarrow> Undefined) else a)"

definition discriminate :: "(jsval \<Rightarrow> string) \<Rightarrow> heap \<Rightarrow> schema_node \<Rightarrow> jsval \<Rightarrow> jsval \<Rightarrow> thrown + discriminated" where
  "discriminate tk h this val details =
     (let d = discriminator this; openapi = root_result this
      in if \<not> truthy d then Inr (Plain Undefined)
         else if major this = 2 then
           (let key = d;
                name = (if truthy val \<and> has_own h val (to_key tk d)
                        then (case get_prop h val (to_key tk d) of Some x \<Rightarrow> x | None \<Rightarrow> Undefined)
                        else Undefined)
            in if truthy name
               then (case get_prop h openapi ''definitions'' of
                       None \<Rightarrow> Inl type_error
                     | Some defs \<Rightarrow>
                         (let schema = and_prop h defs (to_key tk name)
                          in Inr (if truthy details then Details key name schema else Plain schema)))
               else Inr (if truthy details then Details key name Undefined else Plain Undefined))
         else if major this = 3 then
           (let key = (case get_prop h d ''propertyName'' of Some x \<Rightarrow> x | None \<Rightarrow> Undefined);
                name = (if truthy val \<and> has_own h val (to_key tk key)
                        then (case get_prop h val (to_key tk key) of Some x \<Rightarrow> x | None \<Rightarrow> Undefined)
                        else Undefined)
            in if truthy name
               then (let mapping = (case get_prop h d ''mapping'' of Some x \<Rightarrow> x | None \<Rightarrow> Undefined)
                     in if truthy mapping \<and> has_own h mapping (to_key tk name)
                        then (let schema = (case get_prop h mapping (to_key tk name) of Some x \<Rightarrow> x | None \<Rightarrow> Undefined)
                              in Inr (if truthy details then Details key name schema else Plain schema))
                        else (case get_prop h openapi ''components'' of
                                None \<Rightarrow> Inl type_error
                              | Some components \<Rightarrow>
                                  (let schema = and_prop h (and_prop h components ''schemas'') (to_key tk name)
                                   in Inr (if truthy details then Details key name schema else Plain schema))))
               else Inr (if truthy details then Details key name Undefined else Plain Undefined))
         else Inr (if truthy details then Details Undefined Undefined Undefined else Plain Undefined))"

section \<open>Data type registry: \<open>defineDataTypeFormat\<close>\<close>

text \<open>The \<open>definition\<close> argument: \<open>null\<close>, a value that is not an object, or an object with
  the fields the function reads (an absent field reads \<open>undefined\<close>; \<open>constructors\<close> is absent
  or an array).\<close>

record dtdef =
  deserialize :: jsval
  serialize :: jsval
  validate :: jsval
  random :: jsval
  constructors :: "jsval list option"

datatype defarg = DefNull | DefNotObject | DefObj dtdef

text \<open>What \<open>Object.assign({}, definition, { type, format })\<close> stores.\<close>

record stored =
  st_def :: "dtdef option"
  st_type :: string
  st_format :: string

text \<open>The state of \<open>statics\<close>: \<open>dataTypes\<close> has the four own keys \<open>type_names\<close>, each
  holding a table from format to stored definition; \<open>constructors\<close> is the process-wide set;
  \<open>warnings\<close> the keys already warned about; \<open>console\<close> what \<open>console.warn\<close> printed.\<close>

record registry =
  dataTypes :: "string \<Rightarrow> string \<Rightarrow> stored option"
  known_constructors :: "jsval list"
  warnings :: "string list"
  console :: "string list"

definition type_names :: "string list" where
  "type_names = [''boolean'', ''integer'', ''number'', ''string'']"

definition statics :: registry where
  "statics = \<lparr> dataTypes = (\<lambda>t f. None), known_constructors = [], warnings = [], console = [] \<rparr>"

fun is_function :: "jsval \<Rightarrow> bool" where
  "is_function (JFun f) = True"
| "is_function _ = False"

text \<open>\<open>definition.constructors.forEach\<close>: add each function to the set, throw at the first
  value that is not a function (what was added before stays).\<close>

fun add_constructors :: "(jsval \<Rightarrow> string) \<Rightarrow> jsval list \<Rightarrow> jsval list \<Rightarrow> string option \<times> jsval list" where
  "add_constructors ts known [] = (None, known)"
| "add_constructors ts known (f # fs) =
     (if \<not> is_function f
      then (Some (''Invalid constructor specified. Expected a function, received: '' @ ts f), known)
      else add_constructors ts (if f \<in> set known then known else known @ [f]) fs)"

text \<open>The result is the message of the \<open>Error\<close> thrown, if any, and the state afterwards.
  \<open>ts\<close> is the conversion of a value to a string.\<close>

definition defineDataTypeFormat ::
  "(jsval \<Rightarrow> string) \<Rightarrow> registry \<Rightarrow> string \<Rightarrow> jsval \<Rightarrow> defarg \<Rightarrow> string option \<times> registry" where
  "defineDataTypeFormat ts r type format definition =
     (if type \<notin> set type_names
      then (Some (''Invalid type specified. Must be one of: '' @ join '', '' type_names), r)
      else case format of
        JStr f \<Rightarrow>
          (if f = [] then (Some ''Invalid format specified. Must be a non-empty string'', r)
           else if f \<in> set type_names
           then (Some (''Format '' @ dq @ f @ dq @ '' is already defined''), r)
           else
             (let store = (\<lambda>r d. r\<lparr> dataTypes := (dataTypes r)(type := (dataTypes r type)(f \<mapsto>
                                      \<lparr> st_def = d, st_type = type, st_format = f \<rparr>)) \<rparr>)
              in case definition of
                   DefNull \<Rightarrow> (None, store r None)
                 | DefNotObject \<Rightarrow>
                     (Some (''Invalid data type definition. Must be an object that defines handlers for ''
                            @ dq @ ''deserialize'' @ dq @ '', '' @ dq @ ''serialize'' @ dq @ '', and '' @ dq @ ''validate'' @ dq
                            @ '' with optional '' @ dq @ ''random'' @ dq @ '' handler.''), r)
                 | DefObj d \<Rightarrow>
                     (if \<not> is_function (deserialize d) \<or> \<not> is_function (serialize d) \<or> \<not> is_function (validate d)
                         \<or> (truthy (random d) \<and> \<not> is_function (random d))
                      then (Some (''Invalid data type definition. Must be an object that defines handlers for ''
                            @ dq @ ''deserialize'' @ dq @ '', '' @ dq @ ''serialize'' @ dq @ '', and '' @ dq @ ''validate'' @ dq
                            @ '' with optional '' @ dq @ ''random'' @ dq @ '' handler.''), r)
                      else case constructors d of
                             Some cs \<Rightarrow>
                               (case add_constructors ts (known_constructors r) cs of
                                  (Some e, known) \<Rightarrow> (Some e, r\<lparr> known_constructors := known \<rparr>)
                                | (None, known) \<Rightarrow> (None, store (r\<lparr> known_constructors := known \<rparr>) (Some d)))
                           | None \<Rightarrow>
                               (let key = type @ ''-'' @ f;
                                    r' = (if key \<in> set (warnings r) then r
                                          else r\<lparr> warnings := warnings r @ [key],
                                                  console := console r @
                                                    [''WARNING: Data type definition missing recommended '' @ dq @ ''constructors'' @ dq
                                                     @ '' property for type '' @ dq @ type @ dq @ '' and format '' @ dq @ f @ dq @ ''.''] \<rparr>)
                                in (None, store r' (Some d))))))
      | _ \<Rightarrow> (Some ''Invalid format specified. Must be a non-empty string'', r))"

definition sample_codec :: dtdef where
  "sample_codec = \<lparr> deserialize = JFun 0, serialize = JFun 1, validate = JFun 2, random = Undefined, constructors = None \<rparr>"

definition registry_once :: registry where
  "registry_once = snd (defineDataTypeFormat (\<lambda>v. []) statics ''string'' (JStr ''custom'') (DefObj sample_codec))"

section \<open>Populate injectors\<close>

text \<open>The three regular expressions \<open>/:([_$a-z][_$a-z0-9]*)/ig\<close>,
  \<open>/{([_$a-z][_$a-z0-9]*)}/ig\<close> and \<open>/{{([_$a-z][_$a-z0-9]*)}}/ig\<close>. With the \<open>i\<close> flag the
  classes also contain the capital letters.\<close>

datatype injector = colon | handlebar | doubleHandlebar

definition ident_start :: "char \<Rightarrow> bool" where
  "ident_start c =
     (let n = (of_char c :: nat)
      in n = 95 \<or> n = 36 \<or> (97 \<le> n \<and> n \<le> 122) \<or> (65 \<le> n \<and> n \<le> 90))"

definition ident_char :: "char \<Rightarrow> bool" where
  "ident_char c = (ident_start c \<or> (48 \<le> (of_char c :: nat) \<and> (of_char c :: nat) \<le> 57))"

text \<open>Length of the longest prefix matching \<open>[_$a-z][_$a-z0-9]*\<close> (0 when there is none); the
  star is greedy, and no shorter choice can be followed by a closing brace.\<close>

definition ident_len :: "string \<Rightarrow> nat" where
  "ident_len s = (case s of [] \<Rightarrow> 0 | c # cs \<Rightarrow> if ident_start c then Suc (length (takeWhile ident_char cs)) else 0)"

text \<open>A match of the expression at the very start of \<open>s\<close>: the captured name and the length
  of the whole match.\<close>

fun match_here :: "injector \<Rightarrow> string \<Rightarrow> (string \<times> nat) option" where
  "match_here colon s =
     (if take 1 s = '':'' \<and> 0 < ident_len (drop 1 s)
      then Some (take (ident_len (drop 1 s)) (drop 1 s), 1 + ident_len (drop 1 s)) else None)"
| "match_here handlebar s =
     (if take 1 s = ''{'' \<and> 0 < ident_len (drop 1 s) \<and> take 1 (drop (1 + ident_len (drop 1 s)) s) = ''}''
      then Some (take (ident_len (drop 1 s)) (drop 1 s), 2 + ident_len (drop 1 s)) else None)"
| "match_here doubleHandlebar s =
     (if take 2 s = ''{{'' \<and> 0 < ident_len (drop 2 s) \<and> take 2 (drop (2 + ident_len (drop 2 s)) s) = ''}}''
      then Some (take (ident_len (drop 2 s)) (drop 2 s), 4 + ident_len (drop 2 s)) else None)"

text \<open>\<open>rx.exec(value)\<close> of a global expression: the leftmost match at or after \<open>lastIndex\<close>,
  as (index, captured name, length of the match).\<close>

fun find_match :: "injector \<Rightarrow> string \<Rightarrow> nat \<Rightarrow> (nat \<times> string \<times> nat) option" where
  "find_match k [] i = None"
| "find_match k (c # cs) i =
     (case match_here k (c # cs) of
        Some (name, len) \<Rightarrow> Some (i, name, len)
      | None \<Rightarrow> find_match k cs (Suc i))"

definition rx_exec :: "injector \<Rightarrow> string \<Rightarrow> nat \<Rightarrow> (nat \<times> string \<times> nat) option" where
  "rx_exec k val lastIndex = (if length val < lastIndex then None else find_match k (drop lastIndex val) lastIndex)"

definition substring :: "string \<Rightarrow> nat \<Rightarrow> nat \<Rightarrow> string" where
  "substring s a b = take (max a b - min a b) (drop (min a b) s)"

text \<open>The \<open>data\<close> of an injector is the parameter object of \<open>populate\<close>: a plain object,
  given by its own properties, whose prototype is \<open>Object.prototype\<close>. The read
  \<open>data[property]\<close> makes no own-property test, so a name that is no own property is looked
  up in the prototype: there it finds the built-in methods, and the accessor \<open>__proto__\<close>,
  which returns the prototype itself. All these names match the expressions above.\<close>

datatype member = Val jsval | Method string | Prototype

definition prototype_methods :: "string list" where
  "prototype_methods =
     [''constructor'', ''hasOwnProperty'', ''isPrototypeOf'', ''propertyIsEnumerable'', ''toLocaleString'',
      ''toString'', ''valueOf'', ''__defineGetter__'', ''__defineSetter__'', ''__lookupGetter__'',
      ''__lookupSetter__'']"

definition get_member :: "(string \<times> jsval) list \<Rightarrow> string \<Rightarrow> member" where
  "get_member own name =
     (case map_of own name of
        Some v \<Rightarrow> Val v
      | None \<Rightarrow>
          if name \<in> set prototype_methods then Method name
          else if name = ''__proto__'' then Prototype
          else Val Undefined)"

text \<open>The string that \<open>+\<close> appends for a value. A number, a function or an object of the
  caller is converted by \<open>str\<close> (\<open>Number::toString\<close>, respectively the object's own
  \<open>valueOf\<close> and \<open>toString\<close>, taken to leave the parameter object as it is); the conversion
  may throw, as it does with a \<open>TypeError\<close> for an object that has neither method. A built-in
  method prints as V8 prints it (\<open>constructor\<close> is the function \<open>Object\<close>).\<close>

fun to_text :: "(jsval \<Rightarrow> thrown + string) \<Rightarrow> member \<Rightarrow> thrown + string" where
  "to_text str (Val (JStr s)) = Inr s"
| "to_text str (Val Undefined) = Inr ''undefined''"
| "to_text str (Val Null) = Inr ''null''"
| "to_text str (Val (JBool b)) = Inr (if b then ''true'' else ''false'')"
| "to_text str (Val v) = str v"
| "to_text str (Method name) =
     Inr (''function '' @ (if name = ''constructor'' then ''Object'' else name) @ ''() { [native code] }'')"
| "to_text str Prototype = Inr ''[object Object]''"

text \<open>\<open>data[property] !== undefined ? data[property] : match[0]\<close>, converted for the \<open>+\<close>;
  \<open>Inl\<close> is the error thrown by the conversion.\<close>

definition replacement :: "(jsval \<Rightarrow> thrown + string) \<Rightarrow> (string \<times> jsval) list \<Rightarrow> string \<Rightarrow> string \<Rightarrow> thrown + string" where
  "replacement str data property matched =
     (if get_member data property \<noteq> Val Undefined then to_text str (get_member data property)
      else Inr matched)"

text \<open>The \<open>while\<close> loop of \<open>buildInjector\<close>; an error thrown by a conversion leaves the
  injector.\<close>

function injector_loop ::
  "injector \<Rightarrow> string \<Rightarrow> (jsval \<Rightarrow> thrown + string) \<Rightarrow> (string \<times> jsval) list \<Rightarrow> nat \<Rightarrow> nat \<Rightarrow> string
     \<Rightarrow> thrown + string" where
  "injector_loop k val str data lastIndex offset result =
     (case rx_exec k val lastIndex of
        None \<Rightarrow> Inr (result @ drop offset val)
      | Some (index, property, len) \<Rightarrow>
          (case replacement str data property (take len (drop index val)) of
             Inl err \<Rightarrow> Inl err
           | Inr piece \<Rightarrow>
               injector_loop k val str data (index + len) (index + len)
                 (result @ substring val offset index @ piece)))"
  by pat_completeness auto
termination
proof (relation "measure (\<lambda>(k, val, str, data, lastIndex, offset, result). Suc (length val) - lastIndex)")
  show "wf (measure (\<lambda>(k, val, str, data, lastIndex, offset, result). Suc (length val) - lastIndex))"
    by simp
next
  fix k :: injector and val :: string and str :: "jsval \<Rightarrow> thrown + string"
    and data :: "(string \<times> jsval) list"
    and lastIndex offset :: nat and result :: string and x2 :: "nat \<times> string \<times> nat"
    and index :: nat and y :: "string \<times> nat" and property :: string and len :: nat and piece :: string
  assume ex: "rx_exec k val lastIndex = Some x2" and x2: "(index, y) = x2" and y: "(property, len) = y"
  have pos: "match_here k s = Some (n, l) \<Longrightarrow> 0 < l" for s n l
    by (cases k) (auto split: if_splits)
  have fm: "find_match k s i = Some (j, n, l) \<Longrightarrow> i \<le> j \<and> 0 < l" for s i j n l
  proof (induction s arbitrary: i)
    case Nil
    then show ?case by simp
  next
    case (Cons c cs)
    show ?case
    proof (cases "match_here k (c # cs)")
      case None
      with Cons.prems have "find_match k cs (Suc i) = Some (j, n, l)" by simp
      from Cons.IH[OF this] show ?thesis by simp
    next
      case (Some a)
      with Cons.prems pos[of "c # cs" n l] show ?thesis by (cases a) auto
    qed
  qed
  from ex x2 y have "find_match k (drop lastIndex val) lastIndex = Some (index, property, len)"
    and le: "lastIndex \<le> length val"
    by (auto simp: rx_exec_def split: if_splits)
  from fm[OF this(1)] le
  have "lastIndex < index + len" "lastIndex \<le> length val" by auto
  then show "((k, val, str, data, index + len, index + len, result @ substring val offset index @ piece),
         (k, val, str, data, lastIndex, offset, result))
        \<in> measure (\<lambda>(k, val, str, data, lastIndex, offset, result). Suc (length val) - lastIndex)"
    by auto
qed

declare injector_loop.simps [simp del]

definition inject :: "injector \<Rightarrow> string \<Rightarrow> (jsval \<Rightarrow> thrown + string) \<Rightarrow> (string \<times> jsval) list \<Rightarrow> thrown + string" where
  "inject k val str data = injector_loop k val str data 0 0 []"

text \<open>The single pass over the template from left to right: at a parameter reference emit the
  text of what the parameter object reads under the name when that is not \<open>undefined\<close> and the
  reference itself otherwise, then go on behind the reference; anywhere else copy one
  character. What has been emitted is never read again, and the first conversion that throws
  ends the pass with its error.\<close>

definition emit_text :: "string \<Rightarrow> thrown + string \<Rightarrow> thrown + string" where
  "emit_text piece rest = (case rest of Inl err \<Rightarrow> Inl err | Inr s \<Rightarrow> Inr (piece @ s))"

function single_pass :: "injector \<Rightarrow> (jsval \<Rightarrow> thrown + string) \<Rightarrow> (string \<times> jsval) list \<Rightarrow> string \<Rightarrow> thrown + string" where
  "single_pass k str data [] = Inr []"
| "single_pass k str data (c # cs) =
     (case match_here k (c # cs) of
        Some (name, len) \<Rightarrow>
          (case replacement str data name (take len (c # cs)) of
             Inl err \<Rightarrow> Inl err
           | Inr piece \<Rightarrow> emit_text piece (single_pass k str data (drop len (c # cs))))
      | None \<Rightarrow> emit_text [c] (single_pass k str data cs))"
  by pat_completeness auto
termination
proof (relation "measure (\<lambda>(k, str, data, s). length s)")
  show "wf (measure (\<lambda>(k, str, data, s). length s))"
    by simp
next
  fix k :: injector and str :: "jsval \<Rightarrow> thrown + string" and data :: "(string \<times> jsval) list"
    and c :: char and cs :: string and x2 :: "string \<times> nat" and name :: string and len :: nat
    and piece :: string
  assume "match_here k (c # cs) = Some x2" "(name, len) = x2"
  then have "match_here k (c # cs) = Some (name, len)" by simp
  then have "0 < len" by (cases k) (auto split: if_splits)
  then show "((k, str, data, drop len (c # cs)), (k, str, data, c # cs)) \<in> measure (\<lambda>(k, str, data, s). length s)"
    by (cases len) auto
next
  fix k :: injector and str :: "jsval \<Rightarrow> thrown + string" and data :: "(string \<times> jsval) list"
    and c :: char and cs :: string
  show "((k, str, data, cs), (k, str, data, c # cs)) \<in> measure (\<lambda>(k, str, data, s). length s)"
    by simp
qed

text \<open>Sample parameters \<open>{ a: ':b{b}{{b}}', b: 'x', n: null, u: undefined, o: Object.create(null) }\<close>
  (the object at address 0), and a conversion under which an object without \<open>toString\<close> and
  \<open>valueOf\<close> throws; the examples convert no number and no function.\<close>

definition sample_params :: "(string \<times> jsval) list" where
  "sample_params =
     [(''a'', JStr '':b{b}{{b}}''), (''b'', JStr ''x''), (''n'', Null), (''u'', Undefined), (''o'', Ref 0)]"

definition sample_str :: "jsval \<Rightarrow> thrown + string" where
  "sample_str v = (case v of Ref a \<Rightarrow> Inl type_error | _ \<Rightarrow> Inr ''0'')"

section \<open>The normalizer\<close>

subsection \<open>State, walk context and validator descriptors\<close>

text \<open>
  The state of one walk: the heap of objects (raw definitions, and the results being built),
  the next unused address, the identity-keyed cache \<open>data.map\<close>, and what has been attached
  to the exception and warning collectors (each message with the path of its collector).
\<close>

record state =
  objects :: heap
  fresh :: addr
  seen :: "addr \<Rightarrow> jsval option"
  exceptions :: "msg list"
  warned :: "msg list"

text \<open>Running a piece of the walker either needs a deeper recursion than the fuel allows
  (\<open>Stuck\<close>), or throws, or returns; the state reached is kept in both cases.\<close>

datatype 'a res = Stuck | Threw thrown state | Done 'a state

definition seq :: "'a res \<Rightarrow> ('a \<Rightarrow> state \<Rightarrow> 'b res) \<Rightarrow> 'b res" where
  "seq m f = (case m of Stuck \<Rightarrow> Stuck | Threw e st \<Rightarrow> Threw e st | Done x st \<Rightarrow> f x st)"

text \<open>What a callback sees of the walk context \<open>data\<close>: the definition, its type, the result,
  the key, the path of \<open>data.exception\<close> (and of \<open>data.warn\<close>), the parent and the major
  version. The constant fields \<open>context\<close>, \<open>plugins\<close>, \<open>root\<close>, \<open>minor\<close> and \<open>patch\<close> are
  left out.\<close>

datatype view = View (definition_of: jsval) (definitionType_of: string) (result_of: jsval)
  (key_of: string) (exception_at: path) (parent_of: "view option") (major_of: int)

text \<open>A callback may attach errors and warnings anywhere, and returns or throws.\<close>

datatype remark = Err path string | Warn path string

datatype 'a cbres = Returns 'a | Throws thrown

type_synonym 'a callback = "view \<Rightarrow> state \<Rightarrow> remark list \<times> 'a cbres"

text \<open>A descriptor field: absent, a literal, or a callback.\<close>

datatype 'a field = Absent | Lit 'a | Fn "view \<Rightarrow> state \<Rightarrow> remark list \<times> 'a cbres"

datatype types = One string | Many "string list"

datatype 'v desc = Desc
  (d_type: "types field")
  (d_enum: "jsval list field")
  (d_items: 'v)
  (d_additionalProperties: 'v)
  (d_properties: "(string \<times> 'v) list")
  (d_allowed: "bool field")
  (d_ignored: "bool field")
  (d_required: "bool field")
  (d_default: "jsval field")
  (d_errors: "unit field")
  (d_weight: int)

text \<open>A validator: \<open>undefined\<close>, a boolean, a string such as \<open>'string'\<close>, an
  \<open>EnforcerRef(value, config)\<close>, a function of the walk context, or a descriptor object.\<close>

datatype validator =
    VUndefined
  | VBool bool
  | VString string
  | VRef string validator
  | VFn "view \<Rightarrow> state \<Rightarrow> remark list \<times> validator cbres"
  | VDesc "validator desc"

record ctx =
  validator_of :: validator
  view_of :: view

text \<open>What the walker uses from outside this file: the component constructors
  \<open>data.context[name]\<close> (called with the walk context; they may change the state and throw),
  \<open>util.smart\<close>, the conversion of a value to a string used by \<open>join\<close>, and \<open>util.copy\<close> (the
  own properties of the copy).\<close>

record env =
  construct :: "string \<Rightarrow> view \<Rightarrow> state \<Rightarrow> (thrown + jsval) \<times> state"
  smart :: "heap \<Rightarrow> jsval \<Rightarrow> string"
  to_string :: "heap \<Rightarrow> jsval \<Rightarrow> string"
  copy :: "jsval \<Rightarrow> state \<Rightarrow> (string \<times> jsval) list \<times> state"

definition empty_desc :: "validator desc" where
  "empty_desc = Desc Absent Absent VUndefined VUndefined [] Absent Absent Absent Absent Absent 0"

text \<open>Reading a field of a validator: \<open>None\<close> is the \<open>TypeError\<close> of reading off
  \<open>undefined\<close>; booleans, strings, functions and references have none of the fields.\<close>

fun desc_of :: "validator \<Rightarrow> validator desc option" where
  "desc_of VUndefined = None"
| "desc_of (VDesc d) = Some d"
| "desc_of v = Some empty_desc"

fun validator_truthy :: "validator \<Rightarrow> bool" where
  "validator_truthy VUndefined = False"
| "validator_truthy (VBool b) = b"
| "validator_truthy (VString s) = (s \<noteq> [])"
| "validator_truthy v = True"

fun field_truthy :: "('a \<Rightarrow> bool) \<Rightarrow> 'a field \<Rightarrow> bool" where
  "field_truthy t Absent = False"
| "field_truthy t (Lit x) = t x"
| "field_truthy t (Fn f) = True"

fun is_absent :: "'a field \<Rightarrow> bool" where
  "is_absent Absent = True"
| "is_absent f = False"

fun types_truthy :: "types \<Rightarrow> bool" where
  "types_truthy (One s) = (s \<noteq> [])"
| "types_truthy (Many ss) = True"

text \<open>Modelled from the spec: \<open>util.getDefinitionType\<close> is not among the sources; the spec
  gives the types array, object, boolean, number, string, null and undefined.\<close>

definition getDefinitionType :: "heap \<Rightarrow> jsval \<Rightarrow> string" where
  "getDefinitionType h v =
     (case v of
        Undefined \<Rightarrow> ''undefined''
      | Null \<Rightarrow> ''null''
      | JBool b \<Rightarrow> ''boolean''
      | JNum n \<Rightarrow> ''number''
      | JStr s \<Rightarrow> ''string''
      | JFun f \<Rightarrow> ''function''
      | Ref a \<Rightarrow> (case h a of Some (OArr xs) \<Rightarrow> ''array'' | Some (OObj kvs) \<Rightarrow> ''object'' | None \<Rightarrow> ''undefined''))"

subsection \<open>Collectors and callbacks\<close>

definition message :: "path \<Rightarrow> string \<Rightarrow> state \<Rightarrow> state" where
  "message p text st = st\<lparr> exceptions := exceptions st @ [(p, text)] \<rparr>"

fun emit1 :: "remark \<Rightarrow> state \<Rightarrow> state" where
  "emit1 (Err p text) st = st\<lparr> exceptions := exceptions st @ [(p, text)] \<rparr>"
| "emit1 (Warn p text) st = st\<lparr> warned := warned st @ [(p, text)] \<rparr>"

definition emit :: "remark list \<Rightarrow> state \<Rightarrow> state" where
  "emit ns st = fold emit1 ns st"

definition unexpected :: "string \<Rightarrow> string" where
  "unexpected stack = ''Unexpected error encountered: '' @ stack"

text \<open>\<open>fn(value, params)\<close> on a function: the call inside \<open>try\<close>; the handler reads
  \<open>err.stack\<close>, which itself throws a \<open>TypeError\<close> when \<open>err\<close> is \<open>null\<close> or \<open>undefined\<close>.
  \<open>None\<close> is the \<open>undefined\<close> returned after a caught error.\<close>

definition call :: "'a callback \<Rightarrow> view \<Rightarrow> state \<Rightarrow> 'a option res" where
  "call f params st =
     (case f params st of
        (notes, Returns x) \<Rightarrow> Done (Some x) (emit notes st)
      | (notes, Throws (Thrown stack)) \<Rightarrow> Done None (message (exception_at params) (unexpected stack) (emit notes st))
      | (notes, Throws ThrownNullish) \<Rightarrow> Threw type_error (emit notes st))"

definition fn :: "'a field \<Rightarrow> view \<Rightarrow> state \<Rightarrow> 'a option res" where
  "fn val params st =
     (case val of Absent \<Rightarrow> Done None st | Lit x \<Rightarrow> Done (Some x) st | Fn f \<Rightarrow> call f params st)"

definition fn_validator :: "validator \<Rightarrow> view \<Rightarrow> state \<Rightarrow> validator res" where
  "fn_validator val params st =
     (case val of
        VFn f \<Rightarrow> seq (call f params st) (\<lambda>r st. Done (case r of Some v \<Rightarrow> v | None \<Rightarrow> VUndefined) st)
      | v \<Rightarrow> Done v st)"
subsection \<open>Type and enum checks\<close>

definition expectedTypeMessage :: "string option \<Rightarrow> string" where
  "expectedTypeMessage t =
     (if t = Some ''array'' then ''an array''
      else if t = Some ''object'' then ''a plain object''
      else ''a '' @ (case t of Some s \<Rightarrow> s | None \<Rightarrow> ''undefined''))"

definition type_message :: "string option list \<Rightarrow> string" where
  "type_message matches =
     (if length matches = 1 then expectedTypeMessage (matches ! 0)
      else if length matches = 2 then expectedTypeMessage (matches ! 0) @ '' or '' @ expectedTypeMessage (matches ! 1)
      else join '', '' (map expectedTypeMessage (butlast matches)) @ '', or ''
             @ expectedTypeMessage (if matches = [] then None else last matches))"

text \<open>\<open>validateType(definitionType, data)\<close>. It reads \<open>data.validator\<close>, which is the
  validator before \<open>normalize\<close> resolved it. An element \<open>None\<close> of \<open>matches\<close> is \<open>undefined\<close>
  (the \<open>type\<close> callback threw). A literal list of three or more types is not shortened by
  the \<open>pop\<close> of the message.\<close>

definition validateType :: "env \<Rightarrow> string \<Rightarrow> ctx \<Rightarrow> state \<Rightarrow> bool res" where
  "validateType e definitionType c st =
     (case desc_of (validator_of c) of
        None \<Rightarrow> Threw type_error st
      | Some d \<Rightarrow>
          if field_truthy types_truthy (d_type d) \<and> definition_of (view_of c) \<noteq> Undefined
          then seq (fn (d_type d) (view_of c) st) (\<lambda>m st.
                 let matches = (case m of None \<Rightarrow> [None] | Some (One s) \<Rightarrow> [Some s] | Some (Many ss) \<Rightarrow> map Some ss)
                 in if Some definitionType \<in> set matches then Done True st
                    else Done False
                      (message (exception_at (view_of c))
                         (''Value must be '' @ type_message matches @ ''. Received: ''
                            @ smart e (objects st) (definition_of (view_of c))) st))
          else Done True st)"

text \<open>The enum check of \<open>normalize\<close>: \<open>matches.includes(definition)\<close> compares with
  SameValueZero, which on \<open>jsval\<close> is equality (objects are compared by address).\<close>

definition enum_message :: "env \<Rightarrow> heap \<Rightarrow> jsval list \<Rightarrow> jsval \<Rightarrow> string" where
  "enum_message e h matches v =
     (if length matches = 1
      then ''Value must be '' @ smart e h (matches ! 0) @ ''. Received: '' @ smart e h v
      else ''Value must be one of: '' @ join '', '' (map (to_string e h) matches) @ ''. Received: '' @ smart e h v)"

definition enum_check :: "env \<Rightarrow> validator \<Rightarrow> view \<Rightarrow> state \<Rightarrow> unit res" where
  "enum_check e v d st =
     (case desc_of v of
        None \<Rightarrow> Threw type_error st
      | Some ds \<Rightarrow>
          if field_truthy (\<lambda>x. True) (d_enum ds)
          then seq (fn (d_enum ds) d st) (\<lambda>m st.
                 case m of
                   None \<Rightarrow> Threw type_error st
                 | Some matches \<Rightarrow>
                     if definition_of d \<in> set matches then Done () st
                     else Done () (message (exception_at d) (enum_message e (objects st) matches (definition_of d)) st))
          else Done () st)"

subsection \<open>Child contexts\<close>

definition alloc :: "obj \<Rightarrow> state \<Rightarrow> jsval \<times> state" where
  "alloc ob st = (Ref (fresh st), st\<lparr> objects := (objects st)(fresh st \<mapsto> ob), fresh := Suc (fresh st) \<rparr>)"

definition childData :: "view \<Rightarrow> string \<Rightarrow> validator \<Rightarrow> state \<Rightarrow> ctx res" where
  "childData parent key v st =
     (case get_prop (objects st) (definition_of parent) key of
        None \<Rightarrow> Threw type_error st
      | Some definition \<Rightarrow>
          (let definitionType = getDefinitionType (objects st) definition;
               (result, st') = (if definitionType = ''array'' then alloc (OArr []) st
                                else if definitionType = ''object'' then alloc (OObj []) st
                                else (definition, st))
           in Done \<lparr> validator_of = v,
                     view_of = View definition definitionType result key (exception_at parent @ [key]) (Some parent)
                              (major_of parent) \<rparr> st'))"

text \<open>\<open>runChildValidator(data)\<close>; \<open>rec\<close> is \<open>normalize\<close>.\<close>

definition runChildValidator :: "(ctx \<Rightarrow> state \<Rightarrow> jsval res) \<Rightarrow> env \<Rightarrow> ctx \<Rightarrow> state \<Rightarrow> jsval res" where
  "runChildValidator rec e c st =
     seq (fn_validator (validator_of c) (view_of c) st) (\<lambda>v st.
       case v of
         VRef name config \<Rightarrow>
           if definitionType_of (view_of c) = ''boolean'' then rec (c\<lparr> validator_of := config \<rparr>) st
           else if definitionType_of (view_of c) = ''object''
           then (case construct e name (view_of c) st of
                   (Inl err, st') \<Rightarrow> Threw err st'
                 | (Inr instance, st') \<Rightarrow> Done instance st')
           else Done Undefined (message (exception_at (view_of c)) ''Value must be a plain object'' st)
       | _ \<Rightarrow>
           if validator_truthy v then rec (c\<lparr> validator_of := v \<rparr>) st
           else Done (result_of (view_of c)) st)"

subsection \<open>Writing into the result\<close>

text \<open>\<open>result[key] = value\<close> in strict mode: a \<open>TypeError\<close> on \<open>undefined\<close>, \<open>null\<close> and on
  primitives; a named property put on an array or a function is not recorded.\<close>

definition set_prop :: "jsval \<Rightarrow> string \<Rightarrow> jsval \<Rightarrow> state \<Rightarrow> unit res" where
  "set_prop target key v st =
     (case target of
        Ref a \<Rightarrow>
          (case objects st a of
             Some (OObj kvs) \<Rightarrow> Done () (st\<lparr> objects := (objects st)(a \<mapsto> OObj (AList.update key v kvs)) \<rparr>)
           | _ \<Rightarrow> Done () st)
      | JFun f \<Rightarrow> Done () st
      | _ \<Rightarrow> Threw type_error st)"

text \<open>\<open>result.push(value)\<close>, once \<open>result\<close> is known not to be \<open>undefined\<close> or \<open>null\<close>.\<close>

definition push :: "jsval \<Rightarrow> jsval \<Rightarrow> state \<Rightarrow> unit res" where
  "push target v st =
     (case target of
        Ref a \<Rightarrow>
          (case objects st a of
             Some (OArr xs) \<Rightarrow> Done () (st\<lparr> objects := (objects st)(a \<mapsto> OArr (xs @ [v])) \<rparr>)
           | _ \<Rightarrow> Threw type_error st)
      | _ \<Rightarrow> Threw type_error st)"

text \<open>\<open>Object.assign(result, source)\<close> for the own properties of the source.\<close>

fun assign_all :: "jsval \<Rightarrow> (string \<times> jsval) list \<Rightarrow> state \<Rightarrow> unit res" where
  "assign_all target [] st = (if target = Undefined \<or> target = Null then Threw type_error st else Done () st)"
| "assign_all target ((k, v) # kvs) st =
     (if target = Undefined \<or> target = Null then Threw type_error st
      else (case target of
              Ref a \<Rightarrow> seq (set_prop target k v st) (\<lambda>u st. assign_all target kvs st)
            | _ \<Rightarrow> assign_all target kvs st))"

subsection \<open>Arrays\<close>

fun array_loop :: "(ctx \<Rightarrow> state \<Rightarrow> jsval res) \<Rightarrow> env \<Rightarrow> validator desc \<Rightarrow> view \<Rightarrow> nat list \<Rightarrow> state \<Rightarrow> unit res" where
  "array_loop rec e ds d [] st = Done () st"
| "array_loop rec e ds d (i # is) st =
     seq (childData d (dec i) (d_items ds) st) (\<lambda>child st.
       if result_of d = Undefined \<or> result_of d = Null then Threw type_error st
       else seq (runChildValidator rec e child st) (\<lambda>r st.
              seq (push (result_of d) r st) (\<lambda>u st. array_loop rec e ds d is st)))"

definition normalize_array :: "(ctx \<Rightarrow> state \<Rightarrow> jsval res) \<Rightarrow> env \<Rightarrow> validator desc \<Rightarrow> view \<Rightarrow> state \<Rightarrow> unit res" where
  "normalize_array rec e ds d st =
     (case definition_of d of
        Ref a \<Rightarrow>
          (case objects st a of
             Some (OArr xs) \<Rightarrow> array_loop rec e ds d [0..<length xs] st
           | _ \<Rightarrow> Threw type_error st)
      | _ \<Rightarrow> Threw type_error st)"
subsection \<open>Objects\<close>

text \<open>\<open>EnforcerRef.isEnforcerRef(validator) ? validator.config || {} : validator\<close>.\<close>

definition key_validator :: "validator \<Rightarrow> validator" where
  "key_validator v =
     (case v of
        VRef name config \<Rightarrow> if validator_truthy config then config else VDesc empty_desc
      | w \<Rightarrow> w)"

text \<open>\<open>keyValidator.hasOwnProperty('allowed') ? fn(keyValidator.allowed, data) : true\<close>, as
  the truth value that the later tests take of it.\<close>

definition allowed_of :: "validator \<Rightarrow> view \<Rightarrow> state \<Rightarrow> bool res" where
  "allowed_of kv d st =
     (case desc_of kv of
        None \<Rightarrow> Threw type_error st
      | Some ds \<Rightarrow>
          if is_absent (d_allowed ds) then Done True st
          else seq (fn (d_allowed ds) d st) (\<lambda>r st. Done (r = Some True) st))"

text \<open>\<open>!keyValidator.ignored || !fn(keyValidator.ignored, data)\<close>.\<close>

definition not_ignored :: "validator \<Rightarrow> view \<Rightarrow> state \<Rightarrow> bool res" where
  "not_ignored kv d st =
     (case desc_of kv of
        None \<Rightarrow> Threw type_error st
      | Some ds \<Rightarrow>
          if field_truthy (\<lambda>b. b) (d_ignored ds)
          then seq (fn (d_ignored ds) d st) (\<lambda>r st. Done (r \<noteq> Some True) st)
          else Done True st)"

text \<open>\<open>keyValidator.required && fn(keyValidator.required, data)\<close>.\<close>

definition required_of :: "validator \<Rightarrow> view \<Rightarrow> state \<Rightarrow> bool res" where
  "required_of kv d st =
     (case desc_of kv of
        None \<Rightarrow> Threw type_error st
      | Some ds \<Rightarrow>
          if field_truthy (\<lambda>b. b) (d_required ds)
          then seq (fn (d_required ds) d st) (\<lambda>r st. Done (r = Some True) st)
          else Done False st)"

text \<open>\<open>if (validator.errors) { d = Object.assign({}, data); d.definition = ...; fn(validator.errors, d) }\<close>,
  where \<open>d\<close> is the context as it is then and \<open>r\<close> the definition given to the copy.\<close>

definition with_definition :: "view \<Rightarrow> jsval \<Rightarrow> view" where
  "with_definition d r =
     View r (definitionType_of d) (result_of d) (key_of d) (exception_at d) (parent_of d) (major_of d)"

definition with_result :: "view \<Rightarrow> jsval \<Rightarrow> view" where
  "with_result d r =
     View (definition_of d) (definitionType_of d) r (key_of d) (exception_at d) (parent_of d) (major_of d)"

definition run_errors :: "validator \<Rightarrow> view \<Rightarrow> jsval \<Rightarrow> state \<Rightarrow> unit res" where
  "run_errors v d r st =
     (case desc_of v of
        None \<Rightarrow> Threw type_error st
      | Some ds \<Rightarrow>
          if field_truthy (\<lambda>u. True) (d_errors ds)
          then seq (fn (d_errors ds) (with_definition d r) st) (\<lambda>u st. Done () st)
          else Done () st)"

fun additional_loop ::
  "(ctx \<Rightarrow> state \<Rightarrow> jsval res) \<Rightarrow> env \<Rightarrow> validator desc \<Rightarrow> view \<Rightarrow> string list \<Rightarrow> string list \<Rightarrow> state
     \<Rightarrow> string list res" where
  "additional_loop rec e ds d [] notAllowed st = Done notAllowed st"
| "additional_loop rec e ds d (key # keys) notAllowed st =
     seq (childData d key (d_additionalProperties ds) st) (\<lambda>child st.
       let keyValidator = key_validator (validator_of child)
       in seq (allowed_of keyValidator (view_of child) st) (\<lambda>allowed st.
            seq (if definition_of (view_of child) \<noteq> Undefined
                 then (if \<not> allowed then Done (notAllowed @ [key], False) st
                       else seq (not_ignored keyValidator (view_of child) st) (\<lambda>go st.
                              if go
                              then seq (runChildValidator rec e child st) (\<lambda>r st.
                                     seq (set_prop (result_of d) key r st) (\<lambda>u st. Done (notAllowed, True) st))
                              else Done (notAllowed, False) st))
                 else Done (notAllowed, False) st)
              (\<lambda>(notAllowed', valueSet) st.
                 seq (if valueSet
                      then run_errors keyValidator (view_of child)
                             (case get_prop (objects st) (result_of d) key of Some x \<Rightarrow> x | None \<Rightarrow> Undefined) st
                      else Done () st)
                   (\<lambda>u st. additional_loop rec e ds d keys notAllowed' st))))"

text \<open>The expression \<open>/^x-.+/\<close>: the dot matches anything but a line terminator.\<close>

definition is_extension :: "string \<Rightarrow> bool" where
  "is_extension key =
     (take 2 key = ''x-'' \<and> 2 < length key \<and> (of_char (key ! 2) :: nat) \<noteq> 10 \<and> (of_char (key ! 2) :: nat) \<noteq> 13)"

fun extension_loop :: "view \<Rightarrow> string list \<Rightarrow> string list \<Rightarrow> state \<Rightarrow> string list res" where
  "extension_loop d [] unknownKeys st = Done unknownKeys st"
| "extension_loop d (key # keys) unknownKeys st =
     (if is_extension key
      then seq (set_prop (result_of d) key
                  (case get_prop (objects st) (definition_of d) key of Some x \<Rightarrow> x | None \<Rightarrow> Undefined) st)
             (\<lambda>u st. extension_loop d keys unknownKeys st)
      else extension_loop d keys (unknownKeys @ [key]) st)"

text \<open>The \<open>map\<close> over \<open>Object.keys(validator.properties || {})\<close>: the child context and the
  weight \<open>property.weight || 0\<close> of every declared property, and the keys left unknown.
  \<open>util.arrayRemoveItem\<close> is taken to remove the first occurrence.\<close>

definition weight_of :: "validator \<Rightarrow> int" where
  "weight_of property = (case property of VDesc pd \<Rightarrow> d_weight pd | _ \<Rightarrow> 0)"

fun build_properties ::
  "view \<Rightarrow> (string \<times> validator) list \<Rightarrow> string list \<Rightarrow> state \<Rightarrow> ((ctx \<times> int) list \<times> string list) res" where
  "build_properties d [] unknownKeys st = Done ([], unknownKeys) st"
| "build_properties d ((key, property) # ps) unknownKeys st =
     seq (childData d key property st) (\<lambda>child st.
       case property of
         VUndefined \<Rightarrow> Threw type_error st
       | _ \<Rightarrow>
           seq (build_properties d ps (remove1 key unknownKeys) st) (\<lambda>(rest, unknownKeys') st.
             Done ((child, weight_of property) # rest, unknownKeys') st))"

text \<open>The comparator given to \<open>properties.sort\<close>, and the sort itself as a stable insertion
  sort driven by the comparator.\<close>

definition property_compare :: "ctx \<times> int \<Rightarrow> ctx \<times> int \<Rightarrow> int" where
  "property_compare a b =
     (if snd a < snd b then - 1
      else if snd a > snd b then 1
      else if key_of (view_of (fst a)) < key_of (view_of (fst b)) then - 1 else 1)"

fun insert_by :: "('a \<Rightarrow> 'a \<Rightarrow> int) \<Rightarrow> 'a \<Rightarrow> 'a list \<Rightarrow> 'a list" where
  "insert_by cmp x [] = [x]"
| "insert_by cmp x (y # ys) = (if cmp x y \<le> 0 then x # y # ys else y # insert_by cmp x ys)"

definition js_sort :: "('a \<Rightarrow> 'a \<Rightarrow> int) \<Rightarrow> 'a list \<Rightarrow> 'a list" where
  "js_sort cmp xs = foldr (insert_by cmp) xs []"

definition has_default :: "validator \<Rightarrow> bool" where
  "has_default v = (case v of VDesc pd \<Rightarrow> \<not> is_absent (d_default pd) | _ \<Rightarrow> False)"

definition default_of :: "validator \<Rightarrow> jsval field" where
  "default_of v = (case v of VDesc pd \<Rightarrow> d_default pd | _ \<Rightarrow> Absent)"

text \<open>The callback of the \<open>forEach\<close> over the sorted properties, for one property: it
  returns the lists \<open>notAllowed\<close> and \<open>missingRequired\<close> as they are afterwards.\<close>

definition process_property ::
  "(ctx \<Rightarrow> state \<Rightarrow> jsval res) \<Rightarrow> env \<Rightarrow> view \<Rightarrow> ctx \<times> int \<Rightarrow> string list \<times> string list \<Rightarrow> state
     \<Rightarrow> (string list \<times> string list) res" where
  "process_property rec e d prop collected st =
     (let child = fst prop; key = key_of (view_of child); keyValidator = key_validator (validator_of child);
          notAllowed = fst collected; missingRequired = snd collected
      in seq (allowed_of keyValidator (view_of child) st) (\<lambda>allowed st.
           seq (if definition_of (view_of child) = Undefined \<and> allowed \<and> has_default (validator_of child)
                then seq (fn (default_of (validator_of child)) (view_of child) st) (\<lambda>r st.
                       let definition = (case r of Some x \<Rightarrow> x | None \<Rightarrow> Undefined)
                       in Done (View definition (getDefinitionType (objects st) definition) (result_of (view_of child))
                                  key (exception_at (view_of child)) (parent_of (view_of child))
                                  (major_of (view_of child))) st)
                else Done (view_of child) st)
             (\<lambda>d' st.
                if definition_of d' \<noteq> Undefined
                then (if \<not> allowed then Done (notAllowed @ [key], missingRequired) st
                      else seq (not_ignored keyValidator d' st) (\<lambda>go st.
                             if go
                             then seq (runChildValidator rec e (child\<lparr> view_of := d' \<rparr>) st) (\<lambda>r st.
                                    seq (set_prop (result_of d) key r st) (\<lambda>u st. Done (notAllowed, missingRequired) st))
                             else Done (notAllowed, missingRequired) st))
                else if allowed
                then seq (required_of keyValidator d' st) (\<lambda>required st.
                       Done (notAllowed, if required then missingRequired @ [key] else missingRequired) st)
                else Done (notAllowed, missingRequired) st)))"

text \<open>\<open>properties.forEach\<close>: the callback runs on each element from the first to the last,
  each run starting in the state the one before left.\<close>

fun known_properties_loop ::
  "(ctx \<Rightarrow> state \<Rightarrow> jsval res) \<Rightarrow> env \<Rightarrow> view \<Rightarrow> (ctx \<times> int) list \<Rightarrow> string list \<times> string list \<Rightarrow> state
     \<Rightarrow> (string list \<times> string list) res" where
  "known_properties_loop rec e d [] collected st = Done collected st"
| "known_properties_loop rec e d (prop # props) collected st =
     seq (process_property rec e d prop collected st) (\<lambda>collected' st. known_properties_loop rec e d props collected' st)"

definition not_allowed_message :: "string list \<Rightarrow> string" where
  "not_allowed_message notAllowed =
     ''Propert'' @ (if length notAllowed = 1 then ''y'' else ''ies'') @ '' not allowed: '' @ join '', '' notAllowed"

definition missing_required_message :: "string list \<Rightarrow> string" where
  "missing_required_message missingRequired =
     ''Missing required propert'' @ (if length missingRequired = 1 then ''y'' else ''ies'') @ '': ''
       @ join '', '' missingRequired"

definition report :: "view \<Rightarrow> string list \<Rightarrow> string list \<Rightarrow> state \<Rightarrow> unit res" where
  "report d notAllowed missingRequired st =
     (let st1 = (if notAllowed \<noteq> [] then message (exception_at d) (not_allowed_message notAllowed) st else st);
          st2 = (if missingRequired \<noteq> [] then message (exception_at d) (missing_required_message missingRequired) st1
                 else st1)
      in Done () st2)"

text \<open>The sorted list of declared properties of the structured branch.\<close>

definition sorted_properties :: "view \<Rightarrow> validator desc \<Rightarrow> string list \<Rightarrow> state \<Rightarrow> ((ctx \<times> int) list \<times> string list) res" where
  "sorted_properties d ds unknownKeys st =
     seq (build_properties d (d_properties ds) unknownKeys st) (\<lambda>(properties, unknownKeys') st.
       Done (js_sort property_compare properties, unknownKeys') st)"

text \<open>Everything but \<open>validator === true\<close> and \<open>validator === false\<close>.\<close>

definition normalize_described :: "(ctx \<Rightarrow> state \<Rightarrow> jsval res) \<Rightarrow> env \<Rightarrow> validator \<Rightarrow> view \<Rightarrow> state \<Rightarrow> unit res" where
  "normalize_described rec e v d st =
     (case desc_of v of
        None \<Rightarrow> Threw type_error st
      | Some ds \<Rightarrow>
          if validator_truthy (d_additionalProperties ds)
          then (case obj_keys (objects st) (definition_of d) of
                  None \<Rightarrow> Threw type_error st
                | Some keys \<Rightarrow>
                    seq (additional_loop rec e ds d keys [] st) (\<lambda>notAllowed st. report d notAllowed [] st))
          else (case obj_keys (objects st) (definition_of d) of
                  None \<Rightarrow> Threw type_error st
                | Some keys \<Rightarrow>
                    seq (extension_loop d keys [] st) (\<lambda>unknownKeys st.
                      seq (sorted_properties d ds unknownKeys st) (\<lambda>(properties, unknownKeys') st.
                        seq (known_properties_loop rec e d properties ([], []) st) (\<lambda>(notAllowed, missingRequired) st.
                          report d (notAllowed @ unknownKeys') missingRequired st)))))"

definition normalize_object :: "(ctx \<Rightarrow> state \<Rightarrow> jsval res) \<Rightarrow> env \<Rightarrow> validator \<Rightarrow> view \<Rightarrow> state \<Rightarrow> unit res" where
  "normalize_object rec e v d st =
     (case v of
        VBool True \<Rightarrow>
          (case copy e (definition_of d) st of
             (kvs, st') \<Rightarrow> seq (assign_all (result_of d) kvs st') (\<lambda>u st. report d [] [] st))
      | VBool False \<Rightarrow>
          (case obj_keys (objects st) (definition_of d) of
             None \<Rightarrow> Threw type_error st
           | Some keys \<Rightarrow> report d keys [] st)
      | _ \<Rightarrow> normalize_described rec e v d st)"

subsection \<open>\<open>normalize\<close>\<close>

text \<open>The dispatch on \<open>definitionType\<close>; it returns the value of \<open>data.result\<close> afterwards.
  Modelled from the spec: calling the collector, \<open>exception('Unknown data type provided')\<close>,
  attaches the text (the collector is not among the sources).\<close>

definition dispatch :: "(ctx \<Rightarrow> state \<Rightarrow> jsval res) \<Rightarrow> env \<Rightarrow> validator \<Rightarrow> view \<Rightarrow> state \<Rightarrow> jsval res" where
  "dispatch rec e v d st =
     (if definitionType_of d = ''array''
      then (case desc_of v of
              None \<Rightarrow> Threw type_error st
            | Some ds \<Rightarrow> seq (normalize_array rec e ds d st) (\<lambda>u st. Done (result_of d) st))
      else if definitionType_of d = ''object''
      then seq (normalize_object rec e v d st) (\<lambda>u st. Done (result_of d) st)
      else if definitionType_of d \<in> {''boolean'', ''number'', ''string''}
      then Done (definition_of d) st
      else Done (result_of d) (message (exception_at d) ''Unknown data type provided'' st))"

text \<open>The statements of the \<open>try\<close> block up to the dispatch. \<open>Inl\<close> is a value returned from
  inside the block (\<open>return\<close> after a failed type check, or \<open>return existing\<close>), \<open>Inr\<close> the
  value of \<open>data.result\<close> with which the block goes on.\<close>

definition cycle_guard :: "view \<Rightarrow> state \<Rightarrow> jsval option \<times> state" where
  "cycle_guard d st =
     (case definition_of d of
        Ref a \<Rightarrow>
          (case seen st a of
             Some existing \<Rightarrow>
               if truthy existing then (Some existing, st)
               else (None, st\<lparr> seen := (seen st)(a \<mapsto> result_of d) \<rparr>)
           | None \<Rightarrow> (None, st\<lparr> seen := (seen st)(a \<mapsto> result_of d) \<rparr>))
      | _ \<Rightarrow> (None, st))"

definition walk :: "(ctx \<Rightarrow> state \<Rightarrow> jsval res) \<Rightarrow> env \<Rightarrow> ctx \<Rightarrow> state \<Rightarrow> (jsval + validator \<times> jsval) res" where
  "walk rec e c st =
     seq (fn_validator (validator_of c) (view_of c) st) (\<lambda>v st.
       seq (validateType e (definitionType_of (view_of c)) c st) (\<lambda>ok st.
         if \<not> ok then Done (Inl Undefined) st
         else (case cycle_guard (view_of c) st of
                 (Some existing, st) \<Rightarrow> Done (Inl existing) st
               | (None, st) \<Rightarrow>
                   seq (enum_check e v (view_of c) st) (\<lambda>u st.
                     seq (dispatch rec e v (view_of c) st) (\<lambda>r st. Done (Inr (v, r)) st)))))"

text \<open>The \<open>catch\<close> block, with the value \<open>r\<close> of \<open>data.result\<close> when the error was thrown:
  reading \<open>err.stack\<close> off \<open>null\<close> or \<open>undefined\<close> throws out of \<open>normalize\<close>.\<close>

definition handler :: "view \<Rightarrow> jsval \<Rightarrow> thrown \<Rightarrow> state \<Rightarrow> jsval res" where
  "handler d r err st =
     (case err of
        Thrown stack \<Rightarrow> Done r (message (exception_at d) (unexpected stack) st)
      | ThrownNullish \<Rightarrow> Threw type_error st)"

definition normalize_step :: "(ctx \<Rightarrow> state \<Rightarrow> jsval res) \<Rightarrow> env \<Rightarrow> ctx \<Rightarrow> state \<Rightarrow> jsval res" where
  "normalize_step rec e c st =
     (case walk rec e c st of
        Stuck \<Rightarrow> Stuck
      | Threw err st' \<Rightarrow> handler (view_of c) (result_of (view_of c)) err st'
      | Done (Inl returned) st' \<Rightarrow> Done returned st'
      | Done (Inr (v, r)) st' \<Rightarrow>
          (case run_errors v (with_result (view_of c) r) r st' of
             Stuck \<Rightarrow> Stuck
           | Threw err st'' \<Rightarrow> handler (view_of c) r err st''
           | Done u st'' \<Rightarrow> Done r st''))"

text \<open>\<open>normalize(data)\<close> with a bound on the depth of the recursion.\<close>

primrec normalize :: "nat \<Rightarrow> env \<Rightarrow> ctx \<Rightarrow> state \<Rightarrow> jsval res" where
  "normalize 0 e c st = Stuck"
| "normalize (Suc n) e c st = normalize_step (normalize n e) e c st"

subsection \<open>Sample walks\<close>

text \<open>The messages on the exception collector when a run ends.\<close>

definition exceptions_of :: "'a res \<Rightarrow> msg list" where
  "exceptions_of r = (case r of Stuck \<Rightarrow> [] | Threw err st \<Rightarrow> exceptions st | Done x st \<Rightarrow> exceptions st)"

definition sample_env :: env where
  "sample_env =
     \<lparr> construct = (\<lambda>name d st. (Inr Undefined, st)),
       smart = (\<lambda>h v. case v of Ref a \<Rightarrow> ''object '' @ dec a | _ \<Rightarrow> ''value''),
       to_string = (\<lambda>h v. case v of Ref a \<Rightarrow> ''object '' @ dec a | _ \<Rightarrow> ''value''),
       copy = (\<lambda>v st. ([], st)) \<rparr>"

text \<open>The definition \<open>[ { a: 1 } ]\<close> (addresses 0 and 1), with the result \<open>[]\<close> at address 2.\<close>

definition nested_state :: state where
  "nested_state =
     \<lparr> objects = [0 \<mapsto> OArr [Ref 1], 1 \<mapsto> OObj [(''a'', JNum (Fin 1))], 2 \<mapsto> OArr []],
       fresh = 3, seen = Map.empty, exceptions = [], warned = [] \<rparr>"

definition nested_parent :: view where
  "nested_parent = View (Ref 0) ''array'' (Ref 2) [] [] None 3"

definition nested_child :: ctx where
  "nested_child =
     \<lparr> validator_of = VUndefined,
       view_of = View (Ref 1) ''object'' (Ref 3) ''0'' [''0''] (Some nested_parent) 3 \<rparr>"

definition nested_state_child :: state where
  "nested_state_child =
     \<lparr> objects = [0 \<mapsto> OArr [Ref 1], 1 \<mapsto> OObj [(''a'', JNum (Fin 1))], 2 \<mapsto> OArr [], 3 \<mapsto> OObj []],
       fresh = 4, seen = Map.empty, exceptions = [], warned = [] \<rparr>"

text \<open>Two distinct objects \<open>{ a: 1 }\<close> at addresses 1 and 2; the enum allows the first, the
  definition is the second.\<close>

definition enum_state :: state where
  "enum_state =
     \<lparr> objects = [1 \<mapsto> OObj [(''a'', JNum (Fin 1))], 2 \<mapsto> OObj [(''a'', JNum (Fin 1))], 3 \<mapsto> OObj []],
       fresh = 4, seen = Map.empty, exceptions = [], warned = [] \<rparr>"

definition enum_validator :: validator where
  "enum_validator = VDesc (Desc Absent (Lit [Ref 1]) VUndefined VUndefined [] Absent Absent Absent Absent Absent 0)"

definition enum_view :: view where
  "enum_view = View (Ref 2) ''object'' (Ref 3) [] [] None 3"

text \<open>Member-wise equality as the specification words it: the same primitive, or two objects
  with the same members.\<close>

definition memberwise_equal :: "heap \<Rightarrow> jsval \<Rightarrow> jsval \<Rightarrow> bool" where
  "memberwise_equal h v w =
     (v = w \<or> (case (v, w) of (Ref a, Ref b) \<Rightarrow> h a \<noteq> None \<and> h a = h b | _ \<Rightarrow> False))"

text \<open>A validator with three declared properties, all required, written in the order
  \<open>title\<close> (weight 0), \<open>type\<close> (weight -10) and \<open>format\<close> (weight -9), and a definition
  \<open>{}\<close> at address 0.\<close>

definition required_weighted :: "int \<Rightarrow> validator" where
  "required_weighted w = VDesc (Desc Absent Absent VUndefined VUndefined [] Absent Absent (Lit True) Absent Absent w)"

definition required_properties :: "validator desc" where
  "required_properties =
     Desc Absent Absent VUndefined VUndefined
       [(''title'', required_weighted 0), (''type'', required_weighted (- 10)), (''format'', required_weighted (- 9))]
       Absent Absent Absent Absent Absent 0"

definition empty_object_state :: state where
  "empty_object_state =
     \<lparr> objects = [0 \<mapsto> OObj [], 1 \<mapsto> OObj []], fresh = 2, seen = Map.empty, exceptions = [], warned = [] \<rparr>"

definition empty_object_view :: view where
  "empty_object_view = View (Ref 0) ''object'' (Ref 1) [] [] None 3"

definition required_children :: "(ctx \<times> int) list" where
  "required_children =
     [(\<lparr> validator_of = required_weighted (- 10),
         view_of = View Undefined ''undefined'' Undefined ''type'' [''type''] (Some empty_object_view) 3 \<rparr>, - 10),
      (\<lparr> validator_of = required_weighted (- 9),
         view_of = View Undefined ''undefined'' Undefined ''format'' [''format''] (Some empty_object_view) 3 \<rparr>, - 9),
      (\<lparr> validator_of = required_weighted 0,
         view_of = View Undefined ''undefined'' Undefined ''title'' [''title''] (Some empty_object_view) 3 \<rparr>, 0)]"

text \<open>The pair by which the comparator orders a declared property: weight, then key.\<close>

definition sort_key_of :: "ctx \<times> int \<Rightarrow> int \<times> string" where
  "sort_key_of p = (snd p, key_of (view_of (fst p)))"

subsection \<open>Predicates on runs\<close>






subsection \<open>Fuel and the validators below a validator\<close>



text \<open>The validators a validator hands to the contexts below it: the \<open>config\<close> of a
  reference, what a function returns, and the \<open>items\<close>, \<open>additionalProperties\<close> and
  \<open>properties\<close> of a descriptor.\<close>

inductive child_of :: "validator \<Rightarrow> validator \<Rightarrow> bool" where
  config: "child_of config (VRef name config)"
| returned: "f d st = (ns, Returns v) \<Longrightarrow> child_of v (VFn f)"
| items: "child_of (d_items ds) (VDesc ds)"
| additional: "child_of (d_additionalProperties ds) (VDesc ds)"
| property: "(key, p) \<in> set (d_properties ds) \<Longrightarrow> child_of p (VDesc ds)"

definition below :: "validator \<Rightarrow> validator \<Rightarrow> bool" where
  "below w v = (w = VUndefined \<or> child_of\<^sup>+\<^sup>+ w v)"



subsection \<open>Sample walks with errors\<close>







section \<open>Properties\<close>

subsection \<open>Cross-field checks of the Schema descriptor\<close>

lemma fst_properties_loop_path:
  "(q, t) \<in> set (fst (properties_loop h p props keys)) \<Longrightarrow> \<exists>k. q = p @ [''properties'', k]"
proof (induction keys)
  case Nil
  then show ?case by simp
next
  case (Cons key keys)
  then show ?case
    by (auto simp: Let_def split: option.splits if_splits)
qed

lemma properties_loop_not_at: "properties_loop h p props keys = (m, e) \<Longrightarrow> (p, t) \<notin> set m"
  using fst_properties_loop_path[of p t h p props keys] by auto

lemma schema_errors_at:
  assumes "result \<noteq> Undefined" "result \<noteq> Null"
  shows "(p, t) \<in> set (fst (schema_errors cv h p result)) \<Longrightarrow>
           (p, t) \<in> set (bounds_messages cv h p result) \<or> (p, t) \<in> set (composites_check h p result)"
    and "(p, t) \<in> set (bounds_messages cv h p result) \<Longrightarrow> (p, t) \<in> set (fst (schema_errors cv h p result))"
  using assms
  by (auto simp: schema_errors_def Let_def split: option.splits prod.splits if_splits dest: properties_loop_not_at)

lemma minimum_message_not_composites: "minimum_message b \<noteq> composites_message cs"
  by (simp add: minimum_message_def composites_message_def)

lemma bounds_minimum:
  "(p, minimum_message b) \<in> set (bounds_messages cv h p result) \<longleftrightarrow>
     (let g = (\<lambda>k. case get_prop h result k of Some x \<Rightarrow> x | None \<Rightarrow> Undefined)
      in \<not> minMaxValid cv (g ''minimum'') (g ''maximum'') (g ''exclusiveMinimum'') (g ''exclusiveMaximum'')
         \<and> b = (truthy (g ''exclusiveMinimum'') \<or> truthy (g ''exclusiveMaximum'')))"
  by (simp add: bounds_messages_def Let_def minimum_message_def min_max_message_def dq_def; blast)

text \<open>
  C9. When the materialized schema \<open>result\<close> has both \<open>minimum\<close> and \<open>maximum\<close> defined, the
  cross-field check compares them as numbers (after unary plus). It attaches no
  \<open>Property "minimum" must be less than ...\<close> message when minimum is strictly less than
  maximum, or when they are equal and neither \<open>exclusiveMinimum\<close> nor \<open>exclusiveMaximum\<close> is
  truthy. Otherwise it attaches exactly the variant of the message that contains
  \<open>or equal to\<close> if and only if neither exclusive flag is truthy.
\<close>

theorem minimum_maximum_cross_check:
  assumes "result \<noteq> Undefined" "result \<noteq> Null"
    and "get_prop h result ''minimum'' = Some lo" "lo \<noteq> Undefined"
    and "get_prop h result ''maximum'' = Some hi" "hi \<noteq> Undefined"
    and "get_prop h result ''exclusiveMinimum'' = Some xmin"
    and "get_prop h result ''exclusiveMaximum'' = Some xmax"
  shows "let msgs = set (fst (schema_errors cv h p result));
             a = to_number cv lo; b = to_number cv hi;
             excl = (truthy xmin \<or> truthy xmax)
         in (if num_lt a b \<or> (num_eq a b \<and> \<not> excl)
             then (p, minimum_message True) \<notin> msgs \<and> (p, minimum_message False) \<notin> msgs
             else (p, minimum_message excl) \<in> msgs \<and> (p, minimum_message (\<not> excl)) \<notin> msgs)"
proof -
  have mem: "(p, minimum_message b) \<in> set (fst (schema_errors cv h p result))
               \<longleftrightarrow> (p, minimum_message b) \<in> set (bounds_messages cv h p result)" for b
    using schema_errors_at[OF assms(1,2), of p "minimum_message b" cv h]
    by (auto simp: composites_check_def Let_def minimum_message_not_composites)
  show ?thesis
    using assms(3-8) by (auto simp: mem bounds_minimum minMaxValid_def Let_def)
qed

theorem minimum_maximum_cross_check_witness:
  "([], minimum_message False) \<notin> set (fst (schema_errors (\<lambda>v. NaN) heap_equal_bounds [] (Ref 0)))
   \<and> ([], minimum_message True) \<notin> set (fst (schema_errors (\<lambda>v. NaN) heap_equal_bounds [] (Ref 0)))
   \<and> ([], minimum_message True) \<in> set (fst (schema_errors (\<lambda>v. NaN) heap_exclusive_bounds [] (Ref 0)))
   \<and> ([], minimum_message False) \<in> set (fst (schema_errors (\<lambda>v. NaN) heap_reversed_bounds [] (Ref 0)))"
  using minimum_maximum_cross_check[of "Ref 0" heap_equal_bounds "JNum (Fin 3)" "JNum (Fin 3)" Undefined Undefined "\<lambda>v. NaN" "[]"]
    minimum_maximum_cross_check[of "Ref 0" heap_exclusive_bounds "JNum (Fin 3)" "JNum (Fin 3)" "JBool True" Undefined "\<lambda>v. NaN" "[]"]
    minimum_maximum_cross_check[of "Ref 0" heap_reversed_bounds "JNum (Fin 5)" "JNum (Fin 3)" Undefined Undefined "\<lambda>v. NaN" "[]"]
  by (simp add: heap_equal_bounds_def heap_exclusive_bounds_def heap_reversed_bounds_def get_prop_def Let_def)

lemma bounds_messages_not_composites:
  "(q, ''Cannot have multiple composites: '' @ t) \<notin> set (bounds_messages cv h p result)"
  by (simp add: bounds_messages_def Let_def minimum_message_def min_max_message_def)

lemma schema_errors_composites:
  assumes "result \<noteq> Undefined" "result \<noteq> Null" "snd (schema_errors cv h p result) = None"
  shows "(p, ''Cannot have multiple composites: '' @ t) \<in> set (fst (schema_errors cv h p result))
           \<longleftrightarrow> t = join '', '' (composites_of h result) \<and> length (composites_of h result) > 1"
  using assms bounds_messages_not_composites[of p t cv h p result]
  by (auto simp: schema_errors_def Let_def composites_check_def composites_message_def
      split: option.splits prod.splits if_splits dest: properties_loop_not_at)

text \<open>
  C8. On the materialized result of the schema
  \<open>{type: 'object', properties: {a: 5}, allOf: [], oneOf: []}\<close> (the property \<open>a\<close> is not a
  plain object, so its entry in \<open>result.properties\<close> is \<open>undefined\<close>) the callback throws while
  reading \<open>v.readOnly\<close>, before it reaches the composite check: no
  \<open>Cannot have multiple composites: allOf, oneOf\<close> message is attached although both
  \<open>allOf\<close> and \<open>oneOf\<close> are present.
\<close>

theorem composites_check_skipped:
  "composites_of heap_two_composites (Ref 0) = [''allOf'', ''oneOf'']
   \<and> schema_errors cv heap_two_composites p (Ref 0) = ([], Some type_error)
   \<and> (p, ''Cannot have multiple composites: allOf, oneOf'') \<notin> set (fst (schema_errors cv heap_two_composites p (Ref 0)))"
  by (simp add: schema_errors_def heap_two_composites_def bounds_messages_def get_prop_def has_own_def
      obj_keys_def minMaxValid_def composites_of_def Let_def)

subsection \<open>\<open>discriminate\<close>\<close>

text \<open>
  C10. On a schema node that declares no discriminator (\<open>this.discriminator\<close> is
  \<open>undefined\<close>), \<open>discriminate\<close> returns \<open>undefined\<close>: it does not throw and does not build
  a \<open>{key, name, schema}\<close> record, whatever the value and the details flag are.
\<close>

theorem discriminate_without_discriminator:
  "discriminate tk h (this\<lparr> discriminator := Undefined \<rparr>) val details = Inr (Plain Undefined)"
  by (simp add: discriminate_def)

lemma discriminate_falsy_discriminator:
  "\<not> truthy (discriminator this) \<Longrightarrow> discriminate tk h this val details = Inr (Plain Undefined)"
  by (simp add: discriminate_def)

subsection \<open>\<open>defineDataTypeFormat\<close>\<close>

lemma registry_once_stored:
  "fst (defineDataTypeFormat (\<lambda>v. []) statics ''string'' (JStr ''custom'') (DefObj sample_codec)) = None
   \<and> dataTypes registry_once ''string'' ''custom''
       = Some \<lparr> st_def = Some sample_codec, st_type = ''string'', st_format = ''custom'' \<rparr>"
  by (simp add: registry_once_def defineDataTypeFormat_def statics_def sample_codec_def type_names_def Let_def)

text \<open>
  C3. After \<open>defineDataTypeFormat('string', 'custom', codec)\<close> has stored a definition for
  the pair, a second call with the same type and format does not throw: the duplicate test
  looks \<open>format\<close> up among the type names of \<open>dataTypes\<close>, not among the formats of
  \<open>dataTypes[type]\<close>. For the same reason a first registration of the fresh pair
  \<open>('string', 'number')\<close> with all three handlers throws \<open>Format "number" is already defined\<close>.
\<close>

theorem duplicate_format_not_rejected:
  "dataTypes registry_once ''string'' ''custom'' \<noteq> None
   \<and> fst (defineDataTypeFormat (\<lambda>v. []) registry_once ''string'' (JStr ''custom'') (DefObj sample_codec)) = None
   \<and> dataTypes statics ''string'' ''number'' = None
   \<and> fst (defineDataTypeFormat (\<lambda>v. []) statics ''string'' (JStr ''number'') (DefObj sample_codec))
       = Some (''Format '' @ dq @ ''number'' @ dq @ '' is already defined'')"
  by (simp add: registry_once_def defineDataTypeFormat_def statics_def sample_codec_def type_names_def Let_def)

theorem duplicate_format_not_rejected_witness:
  "fst (defineDataTypeFormat (\<lambda>v. []) registry_once ''string'' (JStr ''custom'') (DefObj sample_codec)) = None
   \<and> dataTypes registry_once ''string'' ''custom'' \<noteq> None"
  using duplicate_format_not_rejected by simp

lemma define_never_rejects_duplicates:
  assumes "type \<in> set type_names" "f \<noteq> []" "f \<notin> set type_names"
    and "is_function (deserialize d)" "is_function (serialize d)" "is_function (validate d)"
    and "\<not> truthy (random d)" "constructors d = None"
  shows "fst (defineDataTypeFormat ts r type (JStr f) (DefObj d)) = None"
  using assms by (simp add: defineDataTypeFormat_def Let_def)

subsection \<open>Populate injectors\<close>

lemma match_here_bounds: "match_here k s = Some (n, l) \<Longrightarrow> 0 < l"
  by (cases k) (auto split: if_splits)

lemma find_match_None: "find_match k s i = None \<Longrightarrow> single_pass k str data s = Inr s"
  by (induction s arbitrary: i) (auto simp: emit_text_def split: option.splits)

lemma emit_text_append: "emit_text (a @ b) r = emit_text a (emit_text b r)"
  by (cases r) (simp_all add: emit_text_def)

lemma emit_text_Cons: "emit_text (c # a) r = emit_text [c] (emit_text a r)"
  using emit_text_append[of "[c]" a r] by simp

lemma emit_text_Nil: "emit_text [] r = r"
  by (cases r) (simp_all add: emit_text_def)

lemma find_match_Some:
  "find_match k s i = Some (j, n, l) \<Longrightarrow>
     i \<le> j \<and> 0 < l \<and>
     single_pass k str data s
       = emit_text (take (j - i) s)
           (case replacement str data n (take l (drop (j - i) s)) of
              Inl err \<Rightarrow> Inl err
            | Inr piece \<Rightarrow> emit_text piece (single_pass k str data (drop (j - i + l) s)))"
proof (induction s arbitrary: i)
  case Nil
  then show ?case by simp
next
  case (Cons c cs)
  show ?case
  proof (cases "match_here k (c # cs)")
    case None
    with Cons.prems have fm: "find_match k cs (Suc i) = Some (j, n, l)" by simp
    from Cons.IH[OF fm] have le: "Suc i \<le> j" and l: "0 < l"
      and eq: "single_pass k str data cs
                = emit_text (take (j - Suc i) cs)
                    (case replacement str data n (take l (drop (j - Suc i) cs)) of
                       Inl err \<Rightarrow> Inl err
                     | Inr piece \<Rightarrow> emit_text piece (single_pass k str data (drop (j - Suc i + l) cs)))"
      by auto
    from le obtain d where d: "j - i = Suc d" "j - Suc i = d"
      by (cases "j - i") auto
    from eq[unfolded d(2)] have eq': "single_pass k str data cs
                = emit_text (take d cs)
                    (case replacement str data n (take l (drop d cs)) of
                       Inl err \<Rightarrow> Inl err
                     | Inr piece \<Rightarrow> emit_text piece (single_pass k str data (drop (d + l) cs)))" .
    have pieces: "take (j - i) (c # cs) = c # take d cs" "drop (j - i) (c # cs) = drop d cs"
      "drop (j - i + l) (c # cs) = drop (d + l) cs"
      using d by simp_all
    have "single_pass k str data (c # cs)
            = emit_text (take (j - i) (c # cs))
                (case replacement str data n (take l (drop (j - i) (c # cs))) of
                   Inl err \<Rightarrow> Inl err
                 | Inr piece \<Rightarrow> emit_text piece (single_pass k str data (drop (j - i + l) (c # cs))))"
      unfolding pieces using None by (simp add: eq' emit_text_Cons[of c "take d cs"])
    with le l show ?thesis
      by simp
  next
    case (Some a)
    obtain n' l' where a: "a = (n', l')" by (cases a)
    with Some Cons.prems have "j = i" "n' = n" "l' = l" by auto
    with Some a match_here_bounds[of k "c # cs" n l] show ?thesis
      by (simp add: emit_text_Nil split: sum.splits)
  qed
qed

lemma injector_loop_single_pass:
  "i \<le> length val \<Longrightarrow>
     injector_loop k val str data i i res = emit_text res (single_pass k str data (drop i val))"
proof (induction "length val - i" arbitrary: i res rule: less_induct)
  case less
  show ?case
  proof (cases "rx_exec k val i")
    case None
    with less.prems have "find_match k (drop i val) i = None"
      by (simp add: rx_exec_def)
    from find_match_None[OF this] None show ?thesis
      by (subst injector_loop.simps) (simp add: emit_text_def)
  next
    case (Some a)
    obtain j n l where a: "a = (j, n, l)" by (cases a)
    with Some less.prems have fm: "find_match k (drop i val) i = Some (j, n, l)"
      by (simp add: rx_exec_def)
    from find_match_Some[OF fm, of str data] have le: "i \<le> j" and l: "0 < l"
      and eq: "single_pass k str data (drop i val)
                = emit_text (take (j - i) (drop i val))
                    (case replacement str data n (take l (drop (j - i) (drop i val))) of
                       Inl err \<Rightarrow> Inl err
                     | Inr piece \<Rightarrow> emit_text piece (single_pass k str data (drop (j - i + l) (drop i val))))"
      by auto
    have sub: "substring val i j = take (j - i) (drop i val)"
      using le by (simp add: substring_def max_def min_def)
    have dj: "drop (j - i) (drop i val) = drop j val" "drop (j - i + l) (drop i val) = drop (j + l) val"
      using le by (simp_all add: add.commute)
    show ?thesis
    proof (cases "replacement str data n (take l (drop j val))")
      case (Inl err)
      with Some a eq dj show ?thesis
        by (subst injector_loop.simps) (simp add: emit_text_def)
    next
      case (Inr piece)
      have rest: "injector_loop k val str data (j + l) (j + l) r
                    = emit_text r (single_pass k str data (drop (j + l) val))" for r
      proof (cases "j + l \<le> length val")
        case True
        with le l have "length val - (j + l) < length val - i" by simp
        from less.hyps[OF this True] show ?thesis .
      next
        case False
        then have "rx_exec k val (j + l) = None"
          by (simp add: rx_exec_def)
        then show ?thesis
          using False by (subst injector_loop.simps) (simp add: emit_text_def)
      qed
      from Some a Inr eq sub dj show ?thesis
        by (subst injector_loop.simps) (simp add: rest emit_text_append)
    qed
  qed
qed

text \<open>
  C7 fails as stated: with the empty parameter object \<open>{}\<close> no parameter \<open>constructor\<close> is
  defined, yet the handlebar injector does not leave the reference \<open>{constructor}\<close> verbatim.
  \<open>data[property]\<close> finds the function \<open>Object\<close> in the prototype of the parameter object and
  the injector substitutes its text.
\<close>

theorem inject_substitutes_inherited_member:
  "map_of ([] :: (string \<times> jsval) list) ''constructor'' = None
   \<and> inject handlebar ''{constructor}'' sample_str [] = Inr ''function Object() { [native code] }''
   \<and> inject handlebar ''{constructor}'' sample_str [] \<noteq> Inr ''{constructor}''"
  by (simp add: inject_def injector_loop_single_pass replacement_def get_member_def prototype_methods_def
      emit_text_def ident_len_def ident_start_def ident_char_def)

text \<open>
  C7 as amended. For every template, parameter object and injector (colon, handlebar,
  doubleHandlebar), the injector loop of \<open>buildInjector\<close> computes exactly the single
  left-to-right pass over the template: each parameter reference under whose name the
  parameter object reads a value other than \<open>undefined\<close>, from an own property or from
  \<open>Object.prototype\<close>, is replaced with the text of that value; every other reference is left
  verbatim; the scan goes on behind the reference in the template, so substituted text is
  never scanned again; and when the conversion of a value to text throws, the injector
  throws that error and returns nothing.
\<close>

theorem inject_is_single_pass:
  "inject k val str data = single_pass k str data val"
  by (simp add: inject_def injector_loop_single_pass emit_text_Nil)

lemma inject_not_rescanned:
  "inject colon '':a:b'' sample_str sample_params = Inr '':b{b}{{b}}x''"
  "inject handlebar ''{a}{c}'' sample_str sample_params = Inr '':b{b}{{b}}{c}''"
  "inject doubleHandlebar ''{{a}} {{b}}'' sample_str sample_params = Inr '':b{b}{{b}} x''"
  by (simp_all add: inject_def injector_loop_single_pass sample_params_def replacement_def get_member_def
      prototype_methods_def emit_text_def ident_len_def ident_start_def ident_char_def)

lemma inject_null_undefined_inherited:
  "inject handlebar ''{n}-{u}-{toString}-{__proto__}'' sample_str sample_params
     = Inr ''null-{u}-function toString() { [native code] }-[object Object]''"
  by (simp add: inject_def injector_loop_single_pass sample_params_def replacement_def get_member_def
      prototype_methods_def emit_text_def ident_len_def ident_start_def ident_char_def)

lemma inject_throws:
  "inject colon ''/:b/:o/:b'' sample_str sample_params = Inl type_error"
  by (simp add: inject_def injector_loop_single_pass sample_params_def sample_str_def replacement_def
      get_member_def prototype_methods_def emit_text_def ident_len_def ident_start_def ident_char_def)

subsection \<open>\<open>runChildValidator\<close> with a falsy validator\<close>

lemma childData_result:
  assumes "childData parent key v st = Done c st1"
  shows "(definitionType_of (view_of c) \<noteq> ''array'' \<and> definitionType_of (view_of c) \<noteq> ''object''
            \<longrightarrow> result_of (view_of c) = definition_of (view_of c) \<and> st1 = st)
         \<and> (definitionType_of (view_of c) = ''array''
            \<longrightarrow> result_of (view_of c) = Ref (fresh st) \<and> objects st1 (fresh st) = Some (OArr []))
         \<and> (definitionType_of (view_of c) = ''object''
            \<longrightarrow> result_of (view_of c) = Ref (fresh st) \<and> objects st1 (fresh st) = Some (OObj []))"
  using assms
  by (auto simp: childData_def alloc_def Let_def split: option.splits if_splits)

text \<open>
  C4 fails as stated: for the child \<open>{ a: 1 }\<close> of the array \<open>[ { a: 1 } ]\<close> under a validator
  without \<open>items\<close> (the child validator is \<open>undefined\<close>), \<open>runChildValidator\<close> returns the fresh
  empty object that \<open>childData\<close> made as \<open>result\<close> (address 3), not the raw definition
  (address 1).
\<close>

theorem falsy_validator_returns_fresh_object:
  "childData nested_parent ''0'' VUndefined nested_state = Done nested_child nested_state_child
   \<and> \<not> validator_truthy (validator_of nested_child)
   \<and> definition_of (view_of nested_child) = Ref 1
   \<and> runChildValidator (normalize 1 sample_env) sample_env nested_child nested_state_child
        = Done (Ref 3) nested_state_child
   \<and> objects nested_state_child 1 = Some (OObj [(''a'', JNum (Fin 1))])
   \<and> objects nested_state_child 3 = Some (OObj [])"
  by (simp add: childData_def nested_parent_def nested_state_def nested_child_def nested_state_child_def
      get_prop_def arr_prop_def dec.simps getDefinitionType_def alloc_def runChildValidator_def
      fn_validator_def seq_def Let_def)

text \<open>
  C4 as amended. For every child walk context whose validator resolves to a falsy value,
  \<open>runChildValidator\<close> returns the \<open>result\<close> field of the child unchanged. For a child built
  by \<open>childData\<close> that is the raw definition when its type is neither array nor object, and
  the fresh empty array or object otherwise.
\<close>

theorem falsy_validator_returns_result:
  assumes "childData parent key cv st = Done c st1"
    and "fn_validator (validator_of c) (view_of c) st1 = Done v st2"
    and "\<not> validator_truthy v"
  shows "runChildValidator rec e c st1 = Done (result_of (view_of c)) st2
         \<and> (definitionType_of (view_of c) \<noteq> ''array'' \<and> definitionType_of (view_of c) \<noteq> ''object''
              \<longrightarrow> result_of (view_of c) = definition_of (view_of c))
         \<and> (definitionType_of (view_of c) = ''array''
              \<longrightarrow> result_of (view_of c) = Ref (fresh st) \<and> objects st1 (fresh st) = Some (OArr []))
         \<and> (definitionType_of (view_of c) = ''object''
              \<longrightarrow> result_of (view_of c) = Ref (fresh st) \<and> objects st1 (fresh st) = Some (OObj []))"
proof -
  have "runChildValidator rec e c st1 = Done (result_of (view_of c)) st2"
    using assms(2,3) by (cases v) (simp_all add: runChildValidator_def seq_def)
  with childData_result[OF assms(1)] show ?thesis by simp
qed

theorem falsy_validator_returns_result_witness:
  "runChildValidator (normalize 1 sample_env) sample_env nested_child nested_state_child
     = Done (result_of (view_of nested_child)) nested_state_child
   \<and> result_of (view_of nested_child) = Ref (fresh nested_state)
   \<and> objects nested_state_child (fresh nested_state) = Some (OObj [])"
  using falsy_validator_returns_result[of nested_parent "''0''" VUndefined nested_state nested_child
      nested_state_child VUndefined nested_state_child "normalize 1 sample_env" sample_env]
  by (simp add: childData_def nested_parent_def nested_state_def nested_child_def nested_state_child_def
      get_prop_def arr_prop_def dec.simps getDefinitionType_def alloc_def fn_validator_def Let_def)

subsection \<open>The enum check\<close>

text \<open>
  C2 fails as stated: the definition at address 2 is member-wise equal to the allowed value
  at address 1 (both are \<open>{ a: 1 }\<close>) but is another object, and the enum check attaches an
  error; so does \<open>normalize\<close> on that context.
\<close>

theorem enum_rejects_equal_copy:
  "memberwise_equal (objects enum_state) (definition_of enum_view) (Ref 1)
   \<and> enum_check sample_env enum_validator enum_view enum_state
        = Done () (message [] ''Value must be object 1. Received: object 2'' enum_state)
   \<and> exceptions_of (normalize 1 sample_env \<lparr> validator_of = enum_validator, view_of = enum_view \<rparr> enum_state)
        = [([], ''Value must be object 1. Received: object 2''), ([], ''Property not allowed: a'')]"
  by (simp add: memberwise_equal_def enum_state_def enum_view_def enum_validator_def enum_check_def fn_def
      seq_def enum_message_def sample_env_def dec.simps message_def normalize_step_def walk_def
      fn_validator_def validateType_def cycle_guard_def dispatch_def normalize_object_def
      normalize_described_def obj_keys_def sorted_properties_def js_sort_def report_def run_errors_def
      empty_desc_def is_extension_def get_prop_def exceptions_of_def not_allowed_message_def Let_def)

text \<open>
  C2 as amended. When the validator provides an enum list, the enum check attaches an error
  message at the current path if and only if the definition is not one of the allowed values
  under the comparison of \<open>Array.prototype.includes\<close>: primitives by value, objects and
  arrays by identity. Nothing else changes.
\<close>

theorem enum_check_by_identity:
  assumes "desc_of v = Some ds"
    and "field_truthy (\<lambda>x. True) (d_enum ds)"
    and "fn (d_enum ds) d st = Done (Some matches) st1"
  shows "enum_check e v d st
           = Done () (if definition_of d \<in> set matches then st1
                      else message (exception_at d) (enum_message e (objects st1) matches (definition_of d)) st1)"
  using assms by (simp add: enum_check_def seq_def)

theorem enum_check_by_identity_witness:
  "enum_check sample_env enum_validator enum_view enum_state
     = Done () (message (exception_at enum_view)
                  (enum_message sample_env (objects enum_state) [Ref 1] (definition_of enum_view)) enum_state)
   \<and> enum_check sample_env enum_validator (with_definition enum_view (Ref 1)) enum_state = Done () enum_state"
  using enum_check_by_identity[of enum_validator
      "Desc Absent (Lit [Ref 1]) VUndefined VUndefined [] Absent Absent Absent Absent Absent 0"
      enum_view enum_state "[Ref 1]" enum_state sample_env]
    enum_check_by_identity[of enum_validator
      "Desc Absent (Lit [Ref 1]) VUndefined VUndefined [] Absent Absent Absent Absent Absent 0"
      "with_definition enum_view (Ref 1)" enum_state "[Ref 1]" enum_state sample_env]
  by (simp add: enum_validator_def fn_def enum_view_def with_definition_def)

subsection \<open>The order of the declared properties\<close>

lemma property_compare_le: "property_compare a b \<le> 0 \<longleftrightarrow> sort_key_of a < sort_key_of b"
  by (auto simp: property_compare_def sort_key_of_def less_prod_def)

lemma set_insert_by: "set (insert_by cmp x ys) = insert x (set ys)"
  by (induction ys) auto

lemma mset_insert_by: "mset (insert_by cmp x ys) = add_mset x (mset ys)"
  by (induction ys) auto

lemma mset_js_sort: "mset (js_sort cmp xs) = mset xs"
  by (induction xs) (simp_all add: js_sort_def mset_insert_by)

lemma sorted_insert_by:
  "sorted (map sort_key_of ys) \<Longrightarrow> sorted (map sort_key_of (insert_by property_compare x ys))"
proof (induction ys)
  case Nil
  then show ?case by simp
next
  case (Cons y ys)
  show ?case
  proof (cases "property_compare x y \<le> 0")
    case True
    then have "sort_key_of x \<le> sort_key_of y"
      by (simp add: property_compare_le less_imp_le)
    with Cons.prems True show ?thesis by auto
  next
    case False
    then have "sort_key_of y \<le> sort_key_of x"
      by (simp add: property_compare_le not_less)
    with Cons False show ?thesis
      by (auto simp: set_insert_by)
  qed
qed

lemma sorted_js_sort: "sorted (map sort_key_of (js_sort property_compare xs))"
proof (induction xs)
  case Nil
  then show ?case by (simp add: js_sort_def)
next
  case (Cons x xs)
  then show ?case
    using sorted_insert_by[of "js_sort property_compare xs" x] by (simp add: js_sort_def)
qed

lemma build_properties_keys:
  "build_properties d ps unknownKeys st = Done (props, unknownKeys') st' \<Longrightarrow>
     map sort_key_of props = map (\<lambda>(key, property). (weight_of property, key)) ps"
proof (induction ps arbitrary: unknownKeys st props unknownKeys' st')
  case Nil
  then show ?case by simp
next
  case (Cons p ps)
  obtain key property where p: "p = (key, property)" by (cases p)
  from Cons.prems p obtain child st1 where cd: "childData d key property st = Done child st1"
    by (auto simp: seq_def split: res.splits)
  then have key: "key_of (view_of child) = key"
    by (auto simp: childData_def Let_def split: option.splits if_splits prod.splits)
  from Cons.prems p cd obtain rest u1 st2
    where rest: "build_properties d ps (remove1 key unknownKeys) st1 = Done (rest, u1) st2"
      and props: "props = (child, weight_of property) # rest"
    by (cases property) (auto simp: seq_def split: res.splits)
  from Cons.IH[OF rest] key props p show ?case
    by (simp add: sort_key_of_def)
qed

lemma seq_assoc: "seq (seq m f) g = seq m (\<lambda>x st. seq (f x st) g)"
  by (cases m) (simp_all add: seq_def)

lemma seq_Done: "seq (Done x st) f = f x st"
  by (simp add: seq_def)

lemma known_properties_loop_foldl:
  "seq m (\<lambda>collected st. known_properties_loop rec e d props collected st)
     = foldl (\<lambda>run prop. seq run (\<lambda>collected st. process_property rec e d prop collected st)) m props"
proof (induction props arbitrary: m)
  case Nil
  show ?case by (cases m) (simp_all add: seq_def)
next
  case (Cons p ps)
  have "seq m (\<lambda>collected st. known_properties_loop rec e d (p # ps) collected st)
          = seq (seq m (\<lambda>collected st. process_property rec e d p collected st))
              (\<lambda>collected st. known_properties_loop rec e d ps collected st)"
    by (simp add: seq_assoc)
  then show ?case
    by (simp add: Cons.IH)
qed

text \<open>
  C5. In the structured branch the declared properties are processed in the order of their
  (weight, key) pairs sorted ascending, weight first (an absent weight counts as 0) and the
  key name, compared lexicographically, on ties: the list that is iterated carries exactly
  the sorted pairs of the validator's properties, and the walker runs the body of the
  iteration on its elements from the first to the last, each run starting with the state
  and the lists \<open>notAllowed\<close> and \<open>missingRequired\<close> that the run before left, and
  reports afterwards. The order is thus a function of the validator's properties alone: it
  does not depend on the definition, the state or the order in which the validator lists
  them.
\<close>

theorem properties_processed_in_weight_key_order:
  assumes "desc_of v = Some ds" and "\<not> validator_truthy (d_additionalProperties ds)"
    and "obj_keys (objects st) (definition_of d) = Some keys"
    and "extension_loop d keys [] st = Done unknownKeys st1"
    and "sorted_properties d ds unknownKeys st1 = Done (properties, unknownKeys') st2"
  shows "map (\<lambda>p. (snd p, key_of (view_of (fst p)))) properties
           = sort (map (\<lambda>(key, property). (weight_of property, key)) (d_properties ds))
         \<and> normalize_described rec e v d st
             = seq (foldl (\<lambda>run prop. seq run (\<lambda>collected st. process_property rec e d prop collected st))
                      (Done ([], []) st2) properties)
                 (\<lambda>(notAllowed, missingRequired) st. report d (notAllowed @ unknownKeys') missingRequired st)"
proof
  from assms(5) obtain props where build: "build_properties d (d_properties ds) unknownKeys st1 = Done (props, unknownKeys') st2"
    and sorted: "properties = js_sort property_compare props"
    by (auto simp: sorted_properties_def seq_def split: res.splits)
  have "mset (map sort_key_of properties) = mset (map sort_key_of props)"
    using sorted by (simp add: mset_js_sort)
  then have "mset (map sort_key_of properties)
               = mset (map (\<lambda>(key, property). (weight_of property, key)) (d_properties ds))"
    using build_properties_keys[OF build] by simp
  moreover have "sorted (map sort_key_of properties)"
    using sorted sorted_js_sort by simp
  ultimately have "sort (map (\<lambda>(key, property). (weight_of property, key)) (d_properties ds))
                     = map sort_key_of properties"
    by (rule properties_for_sort)
  then show "map (\<lambda>p. (snd p, key_of (view_of (fst p)))) properties
           = sort (map (\<lambda>(key, property). (weight_of property, key)) (d_properties ds))"
    by (simp add: sort_key_of_def)
next
  have "known_properties_loop rec e d properties ([], []) st2
          = foldl (\<lambda>run prop. seq run (\<lambda>collected st. process_property rec e d prop collected st))
              (Done ([], []) st2) properties"
    using known_properties_loop_foldl[of "Done ([], []) st2" rec e d properties]
    by (simp add: seq_Done)
  then show "normalize_described rec e v d st
             = seq (foldl (\<lambda>run prop. seq run (\<lambda>collected st. process_property rec e d prop collected st))
                      (Done ([], []) st2) properties)
                 (\<lambda>(notAllowed, missingRequired) st. report d (notAllowed @ unknownKeys') missingRequired st)"
    using assms(1-5) by (simp add: normalize_described_def seq_Done)
qed

theorem properties_processed_in_weight_key_order_witness:
  "desc_of (VDesc required_properties) = Some required_properties
   \<and> \<not> validator_truthy (d_additionalProperties required_properties)
   \<and> obj_keys (objects empty_object_state) (definition_of empty_object_view) = Some []
   \<and> extension_loop empty_object_view [] [] empty_object_state = Done [] empty_object_state
   \<and> sorted_properties empty_object_view required_properties [] empty_object_state
       = Done (required_children, []) empty_object_state
   \<and> map (\<lambda>p. (snd p, key_of (view_of (fst p)))) required_children
       = [(- 10, ''type''), (- 9, ''format''), (0, ''title'')]
   \<and> normalize_described (\<lambda>c st. Stuck) sample_env (VDesc required_properties) empty_object_view empty_object_state
       = Done () (message [] ''Missing required properties: type, format, title'' empty_object_state)"
proof -
  have v: "desc_of (VDesc required_properties) = Some required_properties"
    by simp
  have ap: "\<not> validator_truthy (d_additionalProperties required_properties)"
    by (simp add: required_properties_def)
  have keys: "obj_keys (objects empty_object_state) (definition_of empty_object_view) = Some []"
    by (simp add: obj_keys_def empty_object_state_def empty_object_view_def)
  have ext: "extension_loop empty_object_view [] [] empty_object_state = Done [] empty_object_state"
    by simp
  have run: "sorted_properties empty_object_view required_properties [] empty_object_state
               = Done (required_children, []) empty_object_state"
    by (simp add: sorted_properties_def required_properties_def empty_object_view_def empty_object_state_def
        required_children_def seq_def childData_def get_prop_def getDefinitionType_def js_sort_def
        property_compare_def weight_of_def required_weighted_def Let_def)
  have step: "\<And>w key p collected st.
      process_property (\<lambda>c st. Stuck) sample_env empty_object_view
        (\<lparr> validator_of = required_weighted w, view_of = View Undefined ''undefined'' Undefined key p (Some empty_object_view) 3 \<rparr>, w)
        collected st = Done (fst collected, snd collected @ [key]) st"
    by (simp add: process_property_def key_validator_def required_weighted_def allowed_of_def
        has_default_def required_of_def fn_def seq_def Let_def)
  have folded: "foldl (\<lambda>run prop. seq run (\<lambda>collected st.
                   process_property (\<lambda>c st. Stuck) sample_env empty_object_view prop collected st))
                  (Done ([], []) empty_object_state) required_children
                = Done ([], [''type'', ''format'', ''title'']) empty_object_state"
    by (simp add: required_children_def step seq_def)
  have reported: "report empty_object_view [] [''type'', ''format'', ''title''] empty_object_state
                    = Done () (message [] ''Missing required properties: type, format, title'' empty_object_state)"
    by (simp add: report_def missing_required_message_def empty_object_view_def Let_def)
  from properties_processed_in_weight_key_order[OF v ap keys ext run, of "\<lambda>c st. Stuck" sample_env]
  have "map (\<lambda>p. (snd p, key_of (view_of (fst p)))) required_children
          = sort (map (\<lambda>(key, property). (weight_of property, key)) (d_properties required_properties))"
    and "normalize_described (\<lambda>c st. Stuck) sample_env (VDesc required_properties) empty_object_view
           empty_object_state
          = Done () (message [] ''Missing required properties: type, format, title'' empty_object_state)"
    by (simp_all add: folded reported seq_Done)
  moreover have "map (\<lambda>p. (snd p, key_of (view_of (fst p)))) required_children
                   = [(- 10, ''type''), (- 9, ''format''), (0, ''title'')]"
    by (simp add: required_children_def)
  ultimately show ?thesis
    using v ap keys ext run by simp
qed

subsection \<open>No error escapes, and the cache only grows\<close>


















































subsection \<open>Termination\<close>





































lemma no_sub_undefined: "\<not> child_of\<^sup>+\<^sup>+ w VUndefined"
  by (auto elim: tranclp.cases child_of.cases)

lemma below_undefined: "below w VUndefined \<Longrightarrow> w = VUndefined"
  by (simp add: below_def no_sub_undefined)


lemma below_child: "below w v \<Longrightarrow> child_of v u \<Longrightarrow> below w u"
  by (auto simp: below_def intro: tranclp.trancl_into_trancl)


























subsection \<open>Errors are recorded, not propagated\<close>






end
